theory Spec2Isabelle
  imports Complex_Main "HOL-Library.AList"
begin

section \<open>Python values, dictionaries and exceptions\<close>

text \<open>
  The configuration handled by \<^verbatim>\<open>nanoqm/workflows/input_validation.py\<close> is a nested
  Python dictionary with string keys, as the YAML loader and the schema layer produce it.
  A dictionary is an association list in insertion order: \<open>AList.update\<close> replaces the
  value of a key that is there and appends a new key at the end, as \<^verbatim>\<open>d[k] = v\<close> does,
  and \<open>map_of\<close> reads a key. Floating-point values do not take part in any operation
  of the sanitizer and are left out of the value type. A \<^verbatim>\<open>Settings\<close> tree and a plain
  dictionary are the same kind of value here; the source functions below know which one
  they hold, and use item access (\<open>getitem\<close>, raising \<^verbatim>\<open>KeyError\<close>) on the plain
  dictionaries and attribute access (\<open>touch_path\<close>, \<open>setattr_path\<close>, creating what is
  missing) on the trees. Keys are compared as they are written.
\<close>

datatype pyval =
    PNone
  | PBool bool
  | PInt int
  | PStr string
  | PList "pyval list"
  | PTuple "pyval list"
  | PDict "(string \<times> pyval) list"

type_synonym pydict = "(string \<times> pyval) list"

datatype error =
    KeyError string
  | TypeError
  | AttributeError
  | IndexError
  | ExternalError string

definition bind :: "error + 'a \<Rightarrow> ('a \<Rightarrow> error + 'b) \<Rightarrow> error + 'b" where
  "bind m f = (case m of Inl e \<Rightarrow> Inl e | Inr x \<Rightarrow> f x)"

text \<open>\<^verbatim>\<open>d[k]\<close> on a plain dictionary.\<close>

definition getitem :: "pydict \<Rightarrow> string \<Rightarrow> error + pyval" where
  "getitem d k = (case map_of d k of None \<Rightarrow> Inl (KeyError k) | Some v \<Rightarrow> Inr v)"

text \<open>\<^verbatim>\<open>d.get(k)\<close>: \<^verbatim>\<open>None\<close> for a missing key.\<close>

definition dict_get :: "pydict \<Rightarrow> string \<Rightarrow> pyval" where
  "dict_get d k = (case map_of d k of None \<Rightarrow> PNone | Some v \<Rightarrow> v)"

text \<open>The truth value Python gives a value in \<^verbatim>\<open>if v:\<close>.\<close>

fun truthy :: "pyval \<Rightarrow> bool" where
  "truthy PNone = False"
| "truthy (PBool b) = b"
| "truthy (PInt i) = (i \<noteq> 0)"
| "truthy (PStr s) = (s \<noteq> [])"
| "truthy (PList xs) = (xs \<noteq> [])"
| "truthy (PTuple xs) = (xs \<noteq> [])"
| "truthy (PDict d) = (d \<noteq> [])"

text \<open>
  Integer arithmetic and comparison accept \<^verbatim>\<open>int\<close> and \<^verbatim>\<open>bool\<close> (a subclass of
  \<^verbatim>\<open>int\<close>) and raise \<^verbatim>\<open>TypeError\<close> on the other values of the model.
\<close>

fun as_int :: "pyval \<Rightarrow> error + int" where
  "as_int (PInt i) = Inr i"
| "as_int (PBool b) = Inr (if b then 1 else 0)"
| "as_int _ = Inl TypeError"

definition py_sub :: "pyval \<Rightarrow> pyval \<Rightarrow> error + int" where
  "py_sub a b = bind (as_int a) (\<lambda>x. bind (as_int b) (\<lambda>y. Inr (x - y)))"

definition py_add :: "pyval \<Rightarrow> pyval \<Rightarrow> error + int" where
  "py_add a b = bind (as_int a) (\<lambda>x. bind (as_int b) (\<lambda>y. Inr (x + y)))"

text \<open>A path argument of \<^verbatim>\<open>os.path.join\<close> or \<^verbatim>\<open>Path\<close> has to be a string.\<close>

fun as_str :: "pyval \<Rightarrow> error + string" where
  "as_str (PStr s) = Inr s"
| "as_str _ = Inl TypeError"

text \<open>\<^verbatim>\<open>v[i]\<close> for a constant index \<open>i\<close>; the keys of a dictionary are strings.\<close>

fun subscript :: "pyval \<Rightarrow> nat \<Rightarrow> error + pyval" where
  "subscript (PList xs) i = (if i < length xs then Inr (xs ! i) else Inl IndexError)"
| "subscript (PTuple xs) i = (if i < length xs then Inr (xs ! i) else Inl IndexError)"
| "subscript (PStr s) i = (if i < length s then Inr (PStr [s ! i]) else Inl IndexError)"
| "subscript (PDict d) i = Inl (KeyError [])"
| "subscript _ i = Inl TypeError"

text \<open>\<^verbatim>\<open>str(i)\<close> of an integer, for \<^verbatim>\<open>"{} {}".format\<close> and \<^verbatim>\<open>'point_{}'.format\<close>.\<close>

function str_nat :: "nat \<Rightarrow> string" where
  "str_nat n =
     (if n < 10 then [''0123456789'' ! n]
      else str_nat (n div 10) @ [''0123456789'' ! (n mod 10)])"
  by pat_completeness auto
termination
  by (relation "measure id") auto

definition str_int :: "int \<Rightarrow> string" where
  "str_int i = (if i < 0 then CHR ''-'' # str_nat (nat (- i)) else str_nat (nat i))"

text \<open>\<^verbatim>\<open>os.path.join(a, b)\<close> of \<^verbatim>\<open>posixpath\<close>, and \<^verbatim>\<open>sub in s\<close> on strings.\<close>

definition join :: "string \<Rightarrow> string \<Rightarrow> string" where
  "join a b =
     (if take 1 b = ''/'' then b
      else if a = [] \<or> last a = CHR ''/'' then a @ b
      else a @ ''/'' @ b)"

fun contains :: "string \<Rightarrow> string \<Rightarrow> bool" where
  "contains sub [] = (sub = [])"
| "contains sub (c # cs) = (take (length sub) (c # cs) = sub \<or> contains sub cs)"

section \<open>Settings trees\<close>

text \<open>
  \<^verbatim>\<open>qmflows.Settings\<close> is a dictionary whose missing keys come into being as empty
  \<^verbatim>\<open>Settings\<close> when they are read, by item or by attribute. \<open>touch_path\<close> is the read
  \<^verbatim>\<open>s.a.b.c\<close> for what it does to the tree, \<open>setattr_path\<close> the assignment
  \<^verbatim>\<open>s.a.b.c = v\<close>; both raise \<^verbatim>\<open>AttributeError\<close> when a value on the way is not a
  tree. \<open>path_get\<close> reads a path without creating anything and is what the theorems
  observe. \<^verbatim>\<open>Settings(d)\<close> turns a dictionary and the dictionaries nested in it into
  fresh trees, so two trees never share a node; values of other types are not mappings
  and are refused. \<open>overlay\<close> is \<^verbatim>\<open>self.copy()\<close> followed by \<^verbatim>\<open>update(other)\<close>:
  nested trees are merged, everything else is overwritten by \<open>other\<close>.
\<close>

fun path_get :: "string list \<Rightarrow> pyval \<Rightarrow> pyval option" where
  "path_get [] v = Some v"
| "path_get (k # ks) (PDict d) =
     (case map_of d k of None \<Rightarrow> None | Some w \<Rightarrow> path_get ks w)"
| "path_get (k # ks) _ = None"

fun touch_path :: "string list \<Rightarrow> pydict \<Rightarrow> error + pydict" where
  "touch_path [] s = Inr s"
| "touch_path (k # ks) s =
     (case map_of s k of
        None \<Rightarrow> bind (touch_path ks []) (\<lambda>t. Inr (AList.update k (PDict t) s))
      | Some (PDict t) \<Rightarrow> bind (touch_path ks t) (\<lambda>t'. Inr (AList.update k (PDict t') s))
      | Some _ \<Rightarrow> Inl AttributeError)"

fun setattr_path :: "string list \<Rightarrow> pyval \<Rightarrow> pydict \<Rightarrow> error + pydict" where
  "setattr_path [] v s = Inr s"
| "setattr_path [k] v s = Inr (AList.update k v s)"
| "setattr_path (k # k' # ks) v s =
     (case map_of s k of
        None \<Rightarrow>
          bind (setattr_path (k' # ks) v []) (\<lambda>t. Inr (AList.update k (PDict t) s))
      | Some (PDict t) \<Rightarrow>
          bind (setattr_path (k' # ks) v t) (\<lambda>t'. Inr (AList.update k (PDict t') s))
      | Some _ \<Rightarrow> Inl AttributeError)"

fun Settings :: "pyval \<Rightarrow> error + pydict" where
  "Settings (PDict d) = Inr d"
| "Settings _ = Inl TypeError"

fun update_settings :: "pydict \<Rightarrow> pydict \<Rightarrow> pydict" where
  "update_settings self [] = self"
| "update_settings self ((name, v) # rest) =
     update_settings
       (AList.update name
          (case v of
             PDict other \<Rightarrow>
               (case map_of self name of
                  Some (PDict mine) \<Rightarrow> PDict (update_settings mine other)
                | _ \<Rightarrow> v)
           | _ \<Rightarrow> v)
          self)
       rest"

definition overlay :: "pydict \<Rightarrow> pydict \<Rightarrow> pydict" where
  "overlay self other = update_settings self other"

abbreviation dft_path :: "string list" where
  "dft_path \<equiv> [''specific'', ''cp2k'', ''force_eval'', ''dft'']"

abbreviation main :: string where
  "main \<equiv> ''cp2k_settings_main''"

abbreviation guess :: string where
  "guess \<equiv> ''cp2k_settings_guess''"

abbreviation cgs :: string where
  "cgs \<equiv> ''cp2k_general_settings''"

section \<open>The input sanitizer\<close>

text \<open>
  What the sanitizer takes from outside its module: the table \<^verbatim>\<open>valence_electrons\<close>
  and \<^verbatim>\<open>create_settings_from_template\<close> of \<^verbatim>\<open>templates.py\<close>, the atoms that
  \<^verbatim>\<open>Molecule(path, 'xyz')\<close> reads from the geometry file (their element symbols, in
  file order), \<^verbatim>\<open>os.path.abspath\<close> and \<^verbatim>\<open>Path(p).absolute().as_posix()\<close>, which
  depend on the working directory, and the dump of the final input to
  \<^verbatim>\<open>input_parameters.yml\<close>. Each of them that can raise returns an \<open>error\<close>.
\<close>

record env =
  valence_electrons :: "string \<rightharpoonup> int"
  read_molecule :: "pyval \<Rightarrow> error + string list"
  create_settings_from_template :: "pydict \<Rightarrow> pyval \<Rightarrow> pyval \<Rightarrow> error + pydict"
  abspath :: "string \<Rightarrow> string"
  path_absolute :: "string \<Rightarrow> string"
  dump_input_parameters :: "pydict \<Rightarrow> error + unit"

text \<open>
  The object state. \<^verbatim>\<open>self.general\<close> is the dictionary stored in \<^verbatim>\<open>self.user_input\<close>
  under \<^verbatim>\<open>cp2k_general_settings\<close>, the same object: every change of \<open>general\<close> is a
  change of the configuration, which \<open>final_input\<close> writes out. \<open>warnings\<close> collects
  the messages given to \<^verbatim>\<open>warnings.warn\<close>. Calls of \<^verbatim>\<open>logger.info\<close> are not recorded.
\<close>

record sanitizer =
  user_input :: pydict
  general :: pydict
  warnings :: "string list"

definition final_input :: "sanitizer \<Rightarrow> pydict" where
  "final_input s = AList.update cgs (PDict (general s)) (user_input s)"

definition init :: "pydict \<Rightarrow> error + sanitizer" where
  "init input_dict =
     bind (getitem input_dict cgs) (\<lambda>g.
       case g of
         PDict d \<Rightarrow> Inr \<lparr>user_input = input_dict, general = d, warnings = []\<rparr>
       | _ \<Rightarrow> Inl TypeError)"

definition on_general :: "(pydict \<Rightarrow> error + pydict) \<Rightarrow> sanitizer \<Rightarrow> error + sanitizer" where
  "on_general f s = bind (f (general s)) (\<lambda>g. Inr (s\<lparr>general := g\<rparr>))"

text \<open>
  \<open>with_settings p body\<close> is one round of a loop over the job specifications: it takes
  \<^verbatim>\<open>self.general[p]\<close>, runs the body on it and leaves the changed tree in place.
  \<open>for_both\<close> runs the body on the main and then on the guess specification; the body
  sees the general settings as they are at that moment.
\<close>

fun as_settings :: "pyval \<Rightarrow> error + pydict" where
  "as_settings (PDict d) = Inr d"
| "as_settings _ = Inl AttributeError"

definition with_settings ::
  "string \<Rightarrow> (pydict \<Rightarrow> error + pydict) \<Rightarrow> pydict \<Rightarrow> error + pydict" where
  "with_settings p body g =
     bind (getitem g p) (\<lambda>v.
     bind (as_settings v) (\<lambda>s.
     bind (body s) (\<lambda>s'. Inr (AList.update p (PDict s') g))))"

definition for_both :: "(pydict \<Rightarrow> pydict \<Rightarrow> error + pydict) \<Rightarrow> pydict \<Rightarrow> error + pydict" where
  "for_both body g =
     bind (with_settings main (body g) g) (\<lambda>g1. with_settings guess (body g1) g1)"

definition create_settings :: "sanitizer \<Rightarrow> error + sanitizer" where
  "create_settings =
     on_general (\<lambda>g.
       bind (getitem g main) (\<lambda>m.
       bind (Settings m) (\<lambda>m'.
       let g1 = AList.update main (PDict m') g in
       bind (getitem g1 guess) (\<lambda>q.
       bind (Settings q) (\<lambda>q'. Inr (AList.update guess (PDict q') g1))))))"

text \<open>
  The body of the loop of \<^verbatim>\<open>apply_templates\<close>. \<^verbatim>\<open>s['specific']\<close> creates an empty tree
  when the key is missing; \<^verbatim>\<open>"template" in val\<close> is a key test on a tree, a substring
  test on a string, a membership test on a list, and a \<^verbatim>\<open>TypeError\<close> otherwise; where it
  holds on a string or a list, \<^verbatim>\<open>val['template']\<close> raises.
\<close>

definition apply_template :: "env \<Rightarrow> pydict \<Rightarrow> pydict \<Rightarrow> pydict \<Rightarrow> error + pydict" where
  "apply_template e ui g s =
     (case map_of s ''specific'' of
        None \<Rightarrow> Inr (AList.update ''specific'' (PDict []) s)
      | Some (PDict val) \<Rightarrow>
          (case map_of val ''template'' of
             None \<Rightarrow> Inr s
           | Some t \<Rightarrow>
               bind (getitem ui ''path_traj_xyz'') (\<lambda>p.
               bind (create_settings_from_template e g t p) (\<lambda>cp2k_template.
               Inr (AList.update ''specific''
                      (PDict (overlay cp2k_template (AList.delete ''template'' val))) s))))
      | Some (PStr val) \<Rightarrow> if contains ''template'' val then Inl TypeError else Inr s
      | Some (PList val) \<Rightarrow> if PStr ''template'' \<in> set val then Inl TypeError else Inr s
      | Some (PTuple val) \<Rightarrow> if PStr ''template'' \<in> set val then Inl TypeError else Inr s
      | Some _ \<Rightarrow> Inl TypeError)"

definition apply_templates :: "env \<Rightarrow> sanitizer \<Rightarrow> error + sanitizer" where
  "apply_templates e s =
     on_general (\<lambda>g.
       bind (getitem g main) (\<lambda>_.
       bind (getitem g guess) (\<lambda>_.
       for_both (apply_template e (user_input s)) g))) s"

definition add_executable :: "sanitizer \<Rightarrow> error + sanitizer" where
  "add_executable =
     on_general (\<lambda>g.
       bind (getitem g ''executable'') (\<lambda>x.
       bind (with_settings main (\<lambda>s. Inr (AList.update ''executable'' x s)) g) (\<lambda>g1.
       bind (getitem g1 ''executable'') (\<lambda>y.
       with_settings guess (\<lambda>s. Inr (AList.update ''executable'' y s)) g1))))"

text \<open>
  \<^verbatim>\<open>compute_homo_index\<close>. The generator given to \<^verbatim>\<open>sum\<close> builds the key
  \<^verbatim>\<open>'-'.join((at.symbol, basis))\<close> for one atom after the other and looks it up in the
  table; the first atom whose key is missing raises \<^verbatim>\<open>KeyError\<close>. The result is the
  index together with the warnings raised on the way.
\<close>

fun sum_valence :: "(string \<rightharpoonup> int) \<Rightarrow> pyval \<Rightarrow> string list \<Rightarrow> error + int" where
  "sum_valence tbl basis [] = Inr 0"
| "sum_valence tbl basis (symbol # ats) =
     bind (as_str basis) (\<lambda>b.
     bind (case tbl (symbol @ ''-'' @ b) of
             None \<Rightarrow> Inl (KeyError (symbol @ ''-'' @ b))
           | Some n \<Rightarrow> Inr n) (\<lambda>n.
     bind (sum_valence tbl basis ats) (\<lambda>m. Inr (n + m))))"

definition unpaired_warning :: string where
  "unpaired_warning = ''Unpair number of electrons detected when computing the HOMO''"

definition compute_homo_index :: "env \<Rightarrow> sanitizer \<Rightarrow> error + int \<times> string list" where
  "compute_homo_index e s =
     bind (getitem (general s) ''basis'') (\<lambda>basis.
     bind (getitem (general s) ''charge'') (\<lambda>charge.
     bind (getitem (user_input s) ''path_traj_xyz'') (\<lambda>path.
     bind (read_molecule e path) (\<lambda>atoms.
     bind (sum_valence (valence_electrons e) basis atoms) (\<lambda>total.
     bind (py_sub (PInt total) charge) (\<lambda>number_of_electrons.
     Inr (number_of_electrons div 2 + number_of_electrons mod 2,
          if number_of_electrons mod 2 \<noteq> 0 then [unpaired_warning] else [])))))))"

text \<open>
  \<^verbatim>\<open>add_mo_index_range\<close>. The right-hand side of an assignment is evaluated before the
  attribute chain of its target is walked. All the trees reached from \<^verbatim>\<open>cp2k_main\<close> are
  nodes of the one main specification, so each statement is an operation on a path from
  its root.
\<close>

definition add_mo_index_range :: "sanitizer \<Rightarrow> error + sanitizer" where
  "add_mo_index_range s =
     bind (getitem (user_input s) ''active_space'') (\<lambda>active_space.
     bind (getitem (user_input s) ''nHOMO'') (\<lambda>nHOMO.
     bind (subscript active_space 0) (\<lambda>below.
     bind (py_sub nHOMO below) (\<lambda>lo.
     bind (subscript active_space 1) (\<lambda>above.
     bind (py_add nHOMO above) (\<lambda>hi.
     on_general
       (with_settings main (\<lambda>cp2k_main.
          bind (touch_path (dft_path @ [''print'']) cp2k_main) (\<lambda>m1.
          bind (setattr_path (dft_path @ [''print'', ''mo'', ''mo_index_range''])
                  (PStr (str_int (lo + 1) @ '' '' @ str_int hi)) m1) (\<lambda>m2.
          bind (py_sub (PInt hi) nHOMO) (\<lambda>added.
          bind (setattr_path (dft_path @ [''scf'', ''added_mos'']) (PInt added) m2) (\<lambda>m3.
          bind (touch_path (dft_path @ [''print'', ''mo'']) m3) (\<lambda>m4.
          bind (setattr_path (dft_path @ [''print'', ''mo'', ''add_last''])
                  (PStr ''numeric'') m4) (\<lambda>m5.
          bind (setattr_path (dft_path @ [''print'', ''mo'', ''each'', ''qs_scf''])
                  (PInt 0) m5) (\<lambda>m6.
          bind (setattr_path (dft_path @ [''print'', ''mo'', ''eigenvalues''])
                  (PStr []) m6) (\<lambda>m7.
          bind (setattr_path (dft_path @ [''print'', ''mo'', ''eigenvectors''])
                  (PStr []) m7) (\<lambda>m8.
          setattr_path (dft_path @ [''print'', ''mo'', ''ndigits'']) (PInt 36) m8)))))))))))
       (s\<lparr>user_input :=
            AList.update ''mo_index_range'' (PTuple [PInt lo, PInt hi]) (user_input s)\<rparr>)))))))"

definition add_restart_point :: "env \<Rightarrow> sanitizer \<Rightarrow> error + sanitizer" where
  "add_restart_point e =
     on_general (\<lambda>g.
       bind (getitem g guess) (\<lambda>_.
       bind (getitem g ''wfn_restart_file_name'') (\<lambda>wfn.
       if wfn \<noteq> PNone \<and> truthy wfn then
         with_settings guess (\<lambda>guess_settings.
           bind (touch_path dft_path guess_settings) (\<lambda>s1.
           bind (as_str wfn) (\<lambda>w.
           setattr_path (dft_path @ [''wfn_restart_file_name''])
             (PStr (path_absolute e w)) s1))) g
       else Inr g)))"

text \<open>
  \<^verbatim>\<open>select_basis_file\<close>. The list under \<^verbatim>\<open>basis_set_file_name\<close> is first the one
  path of \<^verbatim>\<open>BASIS_MOLOPT\<close>; reading \<^verbatim>\<open>dft.xc\<close> creates that tree when it is missing; the
  two \<^verbatim>\<open>append\<close> calls extend the stored list when \<^verbatim>\<open>dft.xc.get("xc_functional pbe")\<close>
  is \<^verbatim>\<open>None\<close>.
\<close>

definition select_basis_file :: "env \<Rightarrow> pydict \<Rightarrow> pydict \<Rightarrow> error + pydict" where
  "select_basis_file e g sett =
     bind (touch_path dft_path sett) (\<lambda>s1.
     bind (getitem g ''path_basis'') (\<lambda>pb.
     bind (as_str pb) (\<lambda>path_basis.
     bind (setattr_path (dft_path @ [''basis_set_file_name''])
             (PList [PStr (abspath e (join path_basis ''BASIS_MOLOPT''))]) s1) (\<lambda>s2.
     bind (touch_path (dft_path @ [''xc'']) s2) (\<lambda>s3.
     if path_get (dft_path @ [''xc'', ''xc_functional pbe'']) (PDict s3) \<in> {None, Some PNone}
     then
       setattr_path (dft_path @ [''basis_set_file_name''])
         (PList [PStr (abspath e (join path_basis ''BASIS_MOLOPT'')),
                 PStr (abspath e (join path_basis ''BASIS_ADMM_MOLOPT'')),
                 PStr (abspath e (join path_basis ''BASIS_ADMM''))]) s3
     else Inr s3)))))"

definition add_basis :: "env \<Rightarrow> sanitizer \<Rightarrow> error + sanitizer" where
  "add_basis e =
     on_general (\<lambda>g.
       bind (getitem g main) (\<lambda>_.
       bind (getitem g guess) (\<lambda>_.
       bind (getitem g ''path_basis'') (\<lambda>pb.
       if pb \<noteq> PNone then
         for_both (\<lambda>g x.
           bind (getitem g ''basis'') (\<lambda>basis.
           bind (getitem g ''potential'') (\<lambda>potential.
           bind (getitem g ''path_basis'') (\<lambda>pb'.
           bind (as_str pb') (\<lambda>path_basis.
           bind (setattr_path (dft_path @ [''potential_file_name''])
                   (PStr (abspath e (join path_basis ''GTH_POTENTIALS'')))
                   (AList.update ''potential'' potential (AList.update ''basis'' basis x)))
             (select_basis_file e g)))))) g
       else Inr g))))"

definition add_cell_parameters :: "sanitizer \<Rightarrow> error + sanitizer" where
  "add_cell_parameters =
     on_general (for_both (\<lambda>g s.
       bind (getitem g ''file_cell_parameters'') (\<lambda>file.
       bind (if file = PNone then
               bind (getitem g ''cell_parameters'') (\<lambda>cell.
               Inr (AList.update ''cell_angles'' PNone
                     (AList.update ''cell_parameters'' cell s)))
             else Inr (AList.update ''cell_parameters'' PNone s)) (\<lambda>s1.
       Inr (AList.update ''cell_angles'' PNone s1)))))"

definition add_periodic :: "sanitizer \<Rightarrow> error + sanitizer" where
  "add_periodic =
     on_general (for_both (\<lambda>g s.
       bind (getitem g ''periodic'') (\<lambda>periodic.
       setattr_path [''specific'', ''cp2k'', ''force_eval'', ''subsys'', ''cell'', ''periodic'']
         periodic s)))"

definition add_charge :: "sanitizer \<Rightarrow> error + sanitizer" where
  "add_charge =
     on_general (for_both (\<lambda>g s.
       bind (getitem g ''charge'') (\<lambda>charge.
       setattr_path (dft_path @ [''charge'']) charge s)))"

definition add_multiplicity :: "sanitizer \<Rightarrow> error + sanitizer" where
  "add_multiplicity =
     on_general (\<lambda>g.
       bind (getitem g ''multiplicity'') (\<lambda>m.
       bind (as_int m) (\<lambda>multiplicity.
       if multiplicity > 1 then
         for_both (\<lambda>g s.
           bind (getitem g ''multiplicity'') (\<lambda>m'.
           bind (setattr_path (dft_path @ [''multiplicity'']) m' s)
             (setattr_path (dft_path @ [''uks'']) (PStr [])))) g
       else Inr g)))"

definition add_missing_keywords :: "env \<Rightarrow> sanitizer \<Rightarrow> error + sanitizer" where
  "add_missing_keywords e s =
     bind (if dict_get (user_input s) ''nHOMO'' = PNone then
             bind (compute_homo_index e s) (\<lambda>(homo, ws).
             Inr (s\<lparr>user_input := AList.update ''nHOMO'' (PInt homo) (user_input s),
                     warnings := warnings s @ ws\<rparr>))
           else Inr s) (\<lambda>s1.
     bind (if truthy (dict_get (user_input s1) ''compute_orbitals'')
           then add_mo_index_range s1 else Inr s1) (\<lambda>s2.
     bind (add_restart_point e s2) (\<lambda>s3.
     bind (add_basis e s3) (\<lambda>s4.
     bind (add_cell_parameters s4) (\<lambda>s5.
     bind (add_periodic s5) (\<lambda>s6.
     bind (add_charge s6) add_multiplicity))))))"

text \<open>
  \<^verbatim>\<open>print_final_input\<close> dumps a converted copy of the configuration and changes nothing
  in it; the dump can fail. \<^verbatim>\<open>sanitize\<close> returns \<^verbatim>\<open>self.user_input\<close>, here with the
  warnings raised. \<open>sanitize_input d\<close> is \<^verbatim>\<open>InputSanitizer(d).sanitize()\<close>.
\<close>

definition print_final_input :: "env \<Rightarrow> sanitizer \<Rightarrow> error + sanitizer" where
  "print_final_input e s = bind (dump_input_parameters e (final_input s)) (\<lambda>_. Inr s)"

definition sanitize :: "env \<Rightarrow> sanitizer \<Rightarrow> error + pydict \<times> string list" where
  "sanitize e s =
     bind (create_settings s) (\<lambda>s1.
     bind (apply_templates e s1) (\<lambda>s2.
     bind (add_missing_keywords e s2) (\<lambda>s3.
     bind (add_executable s3) (\<lambda>s4.
     bind (print_final_input e s4) (\<lambda>s5.
     Inr (final_input s5, warnings s5))))))"

definition sanitize_input :: "env \<Rightarrow> pydict \<Rightarrow> error + pydict \<times> string list" where
  "sanitize_input e input_dict = bind (init input_dict) (sanitize e)"

section \<open>The multipole matrix provider\<close>

text \<open>
  \<^verbatim>\<open>nac/integrals/multipole_matrices.py\<close>. A value handed around as the matrix is
  \<open>Some m\<close> for a matrix \<open>m\<close> and \<open>None\<close> for Python's \<^verbatim>\<open>None\<close>. The world the
  provider acts on is the content of the HDF5 files, by file name and by path inside
  the file, together with a trace of what was done: the lines printed, the calls of
  \<^verbatim>\<open>compute_matrix_multipole\<close> and the writes to a file.
\<close>

datatype 'm event =
    Printed string
  | Computed string
  | Stored string string "'m option"

record 'm world =
  hdf5 :: "string \<Rightarrow> string \<rightharpoonup> 'm option"
  trace :: "'m event list"

text \<open>
  Modelled from the spec: \<^verbatim>\<open>search_data_in_hdf5\<close>, \<^verbatim>\<open>retrieve_hdf5_data\<close> and
  \<^verbatim>\<open>store_arrays_in_hdf5\<close> of \<^verbatim>\<open>nac.common\<close> are not among the sources. The store is
  a persistent keyed store addressed by a hierarchical path: searching tells whether the
  key is there, retrieving gives the persisted value, and storing persists the value it
  is given under the key, the empty placeholder \<^verbatim>\<open>None\<close> included.
\<close>

definition search_data_in_hdf5 :: "'m world \<Rightarrow> string \<Rightarrow> string \<Rightarrow> bool" where
  "search_data_in_hdf5 w path_hdf5 path = (hdf5 w path_hdf5 path \<noteq> None)"

definition retrieve_hdf5_data :: "'m world \<Rightarrow> string \<Rightarrow> string \<Rightarrow> error + 'm option" where
  "retrieve_hdf5_data w path_hdf5 path =
     (case hdf5 w path_hdf5 path of None \<Rightarrow> Inl (KeyError path) | Some v \<Rightarrow> Inr v)"

definition store_arrays_in_hdf5 ::
  "string \<Rightarrow> string \<Rightarrow> 'm option \<Rightarrow> 'm world \<Rightarrow> 'm world" where
  "store_arrays_in_hdf5 path_hdf5 path tensor w =
     w\<lparr>hdf5 := (hdf5 w)(path_hdf5 := (hdf5 w path_hdf5)(path \<mapsto> tensor)),
       trace := trace w @ [Stored path_hdf5 path tensor]\<rparr>"

definition print :: "string \<Rightarrow> 'm world \<Rightarrow> 'm world" where
  "print line w = w\<lparr>trace := trace w @ [Printed line]\<rparr>"

definition search_multipole_in_hdf5 ::
  "string \<Rightarrow> string \<Rightarrow> string \<Rightarrow> 'm world \<Rightarrow> error + 'm option \<times> 'm world" where
  "search_multipole_in_hdf5 path_hdf5 path_multipole_hdf5 multipole w =
     (if search_data_in_hdf5 w path_hdf5 path_multipole_hdf5 then
        let w1 = print (''retrieving multipole: '' @ multipole @ '' from the hdf5'') w in
        bind (retrieve_hdf5_data w1 path_hdf5 path_multipole_hdf5) (\<lambda>m. Inr (m, w1))
      else Inr (None, print (''computing multipole: '' @ multipole) w))"

text \<open>
  \<^verbatim>\<open>compute_matrix_multipole\<close>: the integral code is commented out in both branches and
  \<^verbatim>\<open>matrix_multipole = None\<close> is what is returned. \<^verbatim>\<open>compute_center_of_mass\<close> of
  \<^verbatim>\<open>nac.common\<close> is called for its value only and is a parameter here; it may raise.
\<close>

definition compute_matrix_multipole ::
  "('a list \<Rightarrow> error + 'c) \<Rightarrow> 'a list \<Rightarrow> pydict \<Rightarrow> string \<Rightarrow> 'm world
     \<Rightarrow> error + 'm option \<times> 'm world" where
  "compute_matrix_multipole compute_center_of_mass mol config multipole w =
     (let w1 = w\<lparr>trace := trace w @ [Computed multipole]\<rparr> in
      bind (getitem config ''path_hdf5'') (\<lambda>path_hdf5.
      if multipole = ''overlap'' then Inr (None, w1)
      else bind (compute_center_of_mass mol) (\<lambda>rc. Inr (None, w1))))"

definition get_multipole_matrix ::
  "('a list \<Rightarrow> error + 'c) \<Rightarrow> int \<Rightarrow> 'a list \<Rightarrow> pydict \<Rightarrow> string \<Rightarrow> 'm world
     \<Rightarrow> error + 'm option \<times> 'm world" where
  "get_multipole_matrix compute_center_of_mass i mol config multipole w =
     bind (getitem config ''project_name'') (\<lambda>pn.
     bind (as_str pn) (\<lambda>project_name.
     let root = join (join project_name ''multipole'') (''point_'' @ str_int i) in
     bind (getitem config ''path_hdf5'') (\<lambda>ph.
     bind (as_str ph) (\<lambda>path_hdf5.
     let path_multipole_hdf5 = join root multipole in
     bind (search_multipole_in_hdf5 path_hdf5 path_multipole_hdf5 multipole w) (\<lambda>(found, w1).
     bind (if found = None
           then compute_matrix_multipole compute_center_of_mass mol config multipole w1
           else Inr (found, w1)) (\<lambda>(matrix_multipole, w2).
     Inr (matrix_multipole,
          store_arrays_in_hdf5 path_hdf5 path_multipole_hdf5 matrix_multipole w2)))))))"

text \<open>The key of a matrix in the store, as \<^verbatim>\<open>get_multipole_matrix\<close> builds it.\<close>

abbreviation multipole_path :: "string \<Rightarrow> int \<Rightarrow> string \<Rightarrow> string" where
  "multipole_path project_name i multipole \<equiv>
     join (join (join project_name ''multipole'') (''point_'' @ str_int i)) multipole"

section \<open>Paths that an operation leaves alone\<close>

text \<open>
  Two paths diverge when they differ at some key before either ends: a write at one
  cannot be seen at the other. \<open>untouched names W r\<close> says that the path \<open>r\<close> into
  the general settings is out of reach of writes at the paths \<open>W\<close> inside the job
  specifications \<open>names\<close>; \<open>confined W f\<close> that the operation \<open>f\<close> on a tree changes
  nothing outside \<open>W\<close>.
\<close>

fun diverge :: "string list \<Rightarrow> string list \<Rightarrow> bool" where
  "diverge (a # p) (b # q) = (a \<noteq> b \<or> diverge p q)"
| "diverge _ _ = False"

fun is_prefix :: "string list \<Rightarrow> string list \<Rightarrow> bool" where
  "is_prefix [] w = True"
| "is_prefix (a # p) (b # w) = (a = b \<and> is_prefix p w)"
| "is_prefix (a # p) [] = False"

definition untouched :: "string list \<Rightarrow> string list list \<Rightarrow> string list \<Rightarrow> bool" where
  "untouched names W r =
     (case r of [] \<Rightarrow> False
      | k # q \<Rightarrow> k \<notin> set names \<or> list_all (\<lambda>w. diverge w q) W)"

definition confined :: "string list list \<Rightarrow> (pydict \<Rightarrow> error + pydict) \<Rightarrow> bool" where
  "confined W f \<longleftrightarrow>
     (\<forall>s s' q. f s = Inr s' \<longrightarrow> list_all (\<lambda>w. diverge w q) W \<longrightarrow>
        path_get q (PDict s') = path_get q (PDict s))"

abbreviation basis_writes :: "string list list" where
  "basis_writes \<equiv> [[''basis''], [''potential''], dft_path @ [''potential_file_name''],
     dft_path @ [''basis_set_file_name''], dft_path @ [''xc'']]"

abbreviation mo_writes :: "string list list" where
  "mo_writes \<equiv> [dft_path @ [''print'', ''mo'', ''mo_index_range''],
     dft_path @ [''scf'', ''added_mos''],
     dft_path @ [''print'', ''mo'', ''add_last''],
     dft_path @ [''print'', ''mo'', ''each'', ''qs_scf''],
     dft_path @ [''print'', ''mo'', ''eigenvalues''],
     dft_path @ [''print'', ''mo'', ''eigenvectors''],
     dft_path @ [''print'', ''mo'', ''ndigits'']]"

section \<open>Example inputs\<close>

text \<open>
  An amino radical in the basis \<^verbatim>\<open>DZVP-MOLOPT\<close>: valence counts 5, 1 and 1, charge 0,
  seven electrons.
\<close>

definition nh2_env :: env where
  "nh2_env = \<lparr>valence_electrons = [''N-DZVP-MOLOPT'' \<mapsto> 5, ''H-DZVP-MOLOPT'' \<mapsto> 1],
     read_molecule = (\<lambda>p. Inr [''N'', ''H'', ''H'']),
     create_settings_from_template = (\<lambda>g t p. Inr []),
     abspath = (\<lambda>p. p), path_absolute = (\<lambda>p. p),
     dump_input_parameters = (\<lambda>d. Inr ())\<rparr>"

definition nh2_state :: sanitizer where
  "nh2_state = \<lparr>user_input = [(''path_traj_xyz'', PStr ''nh2.xyz'')],
     general = [(''basis'', PStr ''DZVP-MOLOPT''), (''charge'', PInt 0)], warnings = []\<rparr>"

text \<open>
  A project \<^verbatim>\<open>namd\<close> with its store \<^verbatim>\<open>quantum.hdf5\<close>: once empty, once holding a
  dipole matrix (the number 7 stands for it) for the point 0. The geometry is empty and
  its centre of mass is found.
\<close>

definition ex_config :: pydict where
  "ex_config = [(''project_name'', PStr ''namd''), (''path_hdf5'', PStr ''quantum.hdf5'')]"

definition empty_world :: "nat world" where
  "empty_world = \<lparr>hdf5 = (\<lambda>f. Map.empty), trace = []\<rparr>"

definition stored_world :: "nat world" where
  "stored_world = \<lparr>hdf5 = (\<lambda>f. if f = ''quantum.hdf5''
       then [''namd/multipole/point_0/dipole'' \<mapsto> Some 7] else Map.empty), trace = []\<rparr>"

definition no_center :: "unit list \<Rightarrow> error + unit" where
  "no_center mol = Inr ()"

text \<open>
  The states of one run of \<^verbatim>\<open>InputSanitizer(d).sanitize()\<close> that returns: \<open>st 0\<close>
  after \<^verbatim>\<open>__init__\<close> and \<^verbatim>\<open>create_settings\<close>, \<open>st 1\<close> after the templates,
  \<open>st 2\<close> and \<open>st 3\<close> after the two conditionals that open
  \<^verbatim>\<open>add_missing_keywords\<close>, then one state after each of its calls and \<open>st 10\<close>
  after \<^verbatim>\<open>add_executable\<close>. \<open>stage_writes n\<close> lists the job specifications and the
  paths in them that the step into \<open>st n\<close> may write.
\<close>

definition run :: "env \<Rightarrow> pydict \<Rightarrow> (nat \<Rightarrow> sanitizer) \<Rightarrow> bool" where
  "run e d st \<longleftrightarrow>
     init d = Inr (st 0) \<and>
     apply_templates e (st 0) = Inr (st 1) \<and>
     (if dict_get (user_input (st 1)) ''nHOMO'' = PNone then
        bind (compute_homo_index e (st 1)) (\<lambda>(homo, ws).
        Inr ((st 1)\<lparr>user_input := AList.update ''nHOMO'' (PInt homo) (user_input (st 1)),
                    warnings := warnings (st 1) @ ws\<rparr>))
      else Inr (st 1)) = Inr (st 2) \<and>
     (if truthy (dict_get (user_input (st 2)) ''compute_orbitals'')
      then add_mo_index_range (st 2) else Inr (st 2)) = Inr (st 3) \<and>
     add_restart_point e (st 3) = Inr (st 4) \<and>
     add_basis e (st 4) = Inr (st 5) \<and>
     add_cell_parameters (st 5) = Inr (st 6) \<and>
     add_periodic (st 6) = Inr (st 7) \<and>
     add_charge (st 7) = Inr (st 8) \<and>
     add_multiplicity (st 8) = Inr (st 9) \<and>
     add_executable (st 9) = Inr (st 10)"

definition stage_writes :: "nat \<Rightarrow> string list \<times> string list list" where
  "stage_writes n =
     (if n = 1 then ([main, guess], [[''specific'']])
      else if n = 3 then ([main], mo_writes)
      else if n = 4 then ([guess], [dft_path @ [''wfn_restart_file_name'']])
      else if n = 5 then ([main, guess], basis_writes)
      else if n = 6 then ([main, guess], [[''cell_parameters''], [''cell_angles'']])
      else if n = 7 then ([main, guess],
             [[''specific'', ''cp2k'', ''force_eval'', ''subsys'', ''cell'', ''periodic'']])
      else if n = 8 then ([main, guess], [dft_path @ [''charge'']])
      else if n = 9 then ([main, guess], [dft_path @ [''multiplicity''], dft_path @ [''uks'']])
      else if n = 10 then ([main, guess], [[''executable'']])
      else ([], []))"

definition stage_clear :: "string list \<Rightarrow> nat \<Rightarrow> bool" where
  "stage_clear r n = untouched (fst (stage_writes n)) (snd (stage_writes n)) r"

text \<open>
  Methane in the basis \<^verbatim>\<open>DZVP-MOLOPT\<close>, charge 0, as a triplet: no \<^verbatim>\<open>nHOMO\<close> given,
  orbitals requested with two orbitals below and three above the HOMO, a basis directory
  and a cell-parameters file supplied. The main specification asks for a template that
  uses the functional \<^verbatim>\<open>pbe\<close>, the guess specification for one that does not.
  \<open>ch4_output\<close> is the configuration the sanitizer returns for it.
\<close>

definition ch4_env :: env where
  "ch4_env = \<lparr>valence_electrons = [''C-DZVP-MOLOPT'' \<mapsto> 4, ''H-DZVP-MOLOPT'' \<mapsto> 1],
     read_molecule = (\<lambda>p. Inr [''C'', ''H'', ''H'', ''H'', ''H'']),
     create_settings_from_template = (\<lambda>g t p.
        if t = PStr ''pbe_main''
        then Inr [(''cp2k'', PDict [(''force_eval'', PDict [(''dft'',
               PDict [(''xc'', PDict [(''xc_functional pbe'', PDict [])])])])])]
        else Inr [(''cp2k'', PDict [(''force_eval'', PDict [(''dft'',
               PDict [(''xc'', PDict [(''xc_functional'', PDict [])])])])])]),
     abspath = (\<lambda>p. if take 1 p = ''/'' then p else ''/home/user/'' @ p),
     path_absolute = (\<lambda>p. if take 1 p = ''/'' then p else ''/home/user/'' @ p),
     dump_input_parameters = (\<lambda>d. Inr ())\<rparr>"

definition ch4_general :: pydict where
  "ch4_general = [(''basis'', PStr ''DZVP-MOLOPT''), (''potential'', PStr ''GTH-PBE''),
     (''path_basis'', PStr ''/opt/cp2k/data''), (''file_cell_parameters'', PStr ''cell.txt''),
     (''cell_parameters'', PInt 10), (''cell_angles'', PNone), (''periodic'', PStr ''none''),
     (''charge'', PInt 0), (''multiplicity'', PInt 3), (''wfn_restart_file_name'', PNone),
     (''executable'', PStr ''cp2k.popt''),
     (main, PDict [(''specific'', PDict [(''template'', PStr ''pbe_main'')])]),
     (guess, PDict [(''specific'', PDict [(''template'', PStr ''pbe0_guess'')])])]"

definition ch4_input :: pydict where
  "ch4_input = [(''path_traj_xyz'', PStr ''ch4.xyz''), (''active_space'', PList [PInt 2, PInt 3]),
     (''compute_orbitals'', PBool True), (cgs, PDict ch4_general)]"

definition ch4_output :: pydict where
  "ch4_output = [(''path_traj_xyz'', PStr ''ch4.xyz''),
       (''active_space'', PList [PInt 2, PInt 3]),
       (''compute_orbitals'', PBool True),
       (cgs,
        PDict
         [(''basis'', PStr ''DZVP-MOLOPT''),
          (''potential'', PStr ''GTH-PBE''),
          (''path_basis'', PStr ''/opt/cp2k/data''),
          (''file_cell_parameters'', PStr ''cell.txt''),
          (''cell_parameters'', PInt 10), (''cell_angles'', PNone),
          (''periodic'', PStr ''none''), (''charge'', PInt 0),
          (''multiplicity'', PInt 3), (''wfn_restart_file_name'', PNone),
          (''executable'', PStr ''cp2k.popt''),
          (main,
           PDict
            [(''specific'',
              PDict
               [(''cp2k'',
                 PDict
                  [(''force_eval'',
                    PDict
                     [(''dft'',
                       PDict
                        [(''xc'',
                          PDict [(''xc_functional pbe'', PDict [])]),
                         (''print'',
                          PDict
                           [(''mo'',
                             PDict
                              [(''mo_index_range'', PStr ''3 7''),
                               (''add_last'', PStr ''numeric''),
                               (''each'', PDict [(''qs_scf'', PInt 0)]),
                               (''eigenvalues'', PStr []),
                               (''eigenvectors'', PStr []),
                               (''ndigits'', PInt 36)])]),
                         (''scf'', PDict [(''added_mos'', PInt 3)]),
                         (''potential_file_name'',
                          PStr ''/opt/cp2k/data/GTH_POTENTIALS''),
                         (''basis_set_file_name'',
                          PList [PStr ''/opt/cp2k/data/BASIS_MOLOPT'']),
                         (''charge'', PInt 0), (''multiplicity'', PInt 3),
                         (''uks'', PStr [])]),
                      (''subsys'',
                       PDict
                        [(''cell'',
                          PDict [(''periodic'', PStr ''none'')])])])])]),
             (''basis'', PStr ''DZVP-MOLOPT''),
             (''potential'', PStr ''GTH-PBE''),
             (''cell_parameters'', PNone), (''cell_angles'', PNone),
             (''executable'', PStr ''cp2k.popt'')]),
          (guess,
           PDict
            [(''specific'',
              PDict
               [(''cp2k'',
                 PDict
                  [(''force_eval'',
                    PDict
                     [(''dft'',
                       PDict
                        [(''xc'', PDict [(''xc_functional'', PDict [])]),
                         (''potential_file_name'',
                          PStr ''/opt/cp2k/data/GTH_POTENTIALS''),
                         (''basis_set_file_name'',
                          PList
                           [PStr ''/opt/cp2k/data/BASIS_MOLOPT'',
                            PStr ''/opt/cp2k/data/BASIS_ADMM_MOLOPT'',
                            PStr ''/opt/cp2k/data/BASIS_ADMM'']),
                         (''charge'', PInt 0), (''multiplicity'', PInt 3),
                         (''uks'', PStr [])]),
                      (''subsys'',
                       PDict
                        [(''cell'',
                          PDict [(''periodic'', PStr ''none'')])])])])]),
             (''basis'', PStr ''DZVP-MOLOPT''),
             (''potential'', PStr ''GTH-PBE''),
             (''cell_parameters'', PNone), (''cell_angles'', PNone),
             (''executable'', PStr ''cp2k.popt'')])]),
       (''nHOMO'', PInt 4), (''mo_index_range'', PTuple [PInt 2, PInt 7])]"

section \<open>Basic facts\<close>

lemma bind_Inr [simp]: "bind (Inr x) f = f x"
  by (simp add: bind_def)

lemma bind_Inl [simp]: "bind (Inl e) f = Inl e"
  by (simp add: bind_def)

lemma bind_eq_Inr: "bind m f = Inr y \<longleftrightarrow> (\<exists>x. m = Inr x \<and> f x = Inr y)"
  by (cases m) simp_all

lemma getitem_eq_Inr: "getitem d k = Inr v \<longleftrightarrow> map_of d k = Some v"
  by (simp add: getitem_def split: option.splits)

lemma as_settings_eq_Inr: "as_settings v = Inr s \<longleftrightarrow> v = PDict s"
  by (cases v) auto

lemma Settings_eq_Inr: "Settings v = Inr s \<longleftrightarrow> v = PDict s"
  by (cases v) auto

lemma as_str_eq_Inr: "as_str v = Inr s \<longleftrightarrow> v = PStr s"
  by (cases v) auto

lemma path_get_update:
  "path_get (k # ks) (PDict (AList.update k' v s)) =
     (if k = k' then path_get ks v else path_get (k # ks) (PDict s))"
  by (simp add: update_conv')

lemma path_get_empty: "q \<noteq> [] \<Longrightarrow> path_get q (PDict []) = None"
  by (cases q) simp_all

lemma diverge_nonempty: "diverge p q \<Longrightarrow> p \<noteq> [] \<and> q \<noteq> []"
  by (cases p; cases q) simp_all

lemma setattr_frame:
  "setattr_path p v s = Inr s' \<Longrightarrow> diverge p q \<Longrightarrow>
     path_get q (PDict s') = path_get q (PDict s)"
proof (induction p v s arbitrary: q s' rule: setattr_path.induct)
  case (1 v s)
  then show ?case by simp
next
  case (2 k v s)
  then show ?case by (cases q) (auto simp: update_conv')
next
  case (3 k k' ks v s)
  from "3.prems"(2) obtain b q' where q: "q = b # q'" by (cases q) auto
  show ?case
  proof (cases "b = k")
    case False
    with "3.prems" q show ?thesis
      by (auto simp: bind_eq_Inr update_conv' split: option.splits pyval.splits)
  next
    case True
    with "3.prems"(2) q have d: "diverge (k' # ks) q'" by simp
    then have ne: "q' \<noteq> []" by (simp add: diverge_nonempty)
    show ?thesis
    proof (cases "map_of s k")
      case None
      with "3.prems"(1) obtain t where t: "setattr_path (k' # ks) v [] = Inr t"
        and s': "s' = AList.update k (PDict t) s" by (auto simp: bind_eq_Inr)
      from "3.IH"(1)[OF None t d] ne have "path_get q' (PDict t) = None"
        by (simp add: path_get_empty)
      with None s' q True show ?thesis by (simp add: update_conv')
    next
      case (Some w)
      with "3.prems"(1) obtain t0 t where w: "w = PDict t0"
        and t: "setattr_path (k' # ks) v t0 = Inr t"
        and s': "s' = AList.update k (PDict t) s"
        by (auto simp: bind_eq_Inr split: pyval.splits)
      from "3.IH"(2)[OF Some w t d] Some w s' q True show ?thesis
        by (simp add: update_conv')
    qed
  qed
qed

lemma touch_frame:
  "touch_path p s = Inr s' \<Longrightarrow> diverge (p @ r) q \<Longrightarrow>
     path_get q (PDict s') = path_get q (PDict s)"
proof (induction p s arbitrary: q s' rule: touch_path.induct)
  case (1 s)
  then show ?case by simp
next
  case (2 k ks s)
  from "2.prems"(2) obtain b q' where q: "q = b # q'" by (cases q) auto
  show ?case
  proof (cases "b = k")
    case False
    with "2.prems" q show ?thesis
      by (auto simp: bind_eq_Inr update_conv' split: option.splits pyval.splits)
  next
    case True
    with "2.prems"(2) q have d: "diverge (ks @ r) q'" by simp
    then have ne: "q' \<noteq> []" by (simp add: diverge_nonempty)
    show ?thesis
    proof (cases "map_of s k")
      case None
      with "2.prems"(1) obtain t where t: "touch_path ks [] = Inr t"
        and s': "s' = AList.update k (PDict t) s" by (auto simp: bind_eq_Inr)
      from "2.IH"(1)[OF None t d] ne have "path_get q' (PDict t) = None"
        by (simp add: path_get_empty)
      with None s' q True show ?thesis by (simp add: update_conv')
    next
      case (Some w)
      with "2.prems"(1) obtain t0 t where w: "w = PDict t0"
        and t: "touch_path ks t0 = Inr t"
        and s': "s' = AList.update k (PDict t) s"
        by (auto simp: bind_eq_Inr split: pyval.splits)
      from "2.IH"(2)[OF Some w t d] Some w s' q True show ?thesis
        by (simp add: update_conv')
    qed
  qed
qed

lemma setattr_get:
  "setattr_path p v s = Inr s' \<Longrightarrow> p \<noteq> [] \<Longrightarrow> path_get p (PDict s') = Some v"
  by (induction p v s arbitrary: s' rule: setattr_path.induct)
     (auto simp: bind_eq_Inr update_conv' split: option.splits pyval.splits)

lemma update_frame:
  "diverge [k] q \<Longrightarrow> path_get q (PDict (AList.update k v s)) = path_get q (PDict s)"
  by (cases q) (auto simp: update_conv')

lemma with_settings_eq_Inr:
  "with_settings p body g = Inr g' \<longleftrightarrow>
     (\<exists>s s'. map_of g p = Some (PDict s) \<and> body s = Inr s' \<and>
        g' = AList.update p (PDict s') g)"
  by (auto simp: with_settings_def bind_eq_Inr getitem_eq_Inr as_settings_eq_Inr)

lemma for_both_eq_Inr:
  "for_both body g = Inr g' \<longleftrightarrow>
     (\<exists>m m' q q'. map_of g main = Some (PDict m) \<and> body g m = Inr m' \<and>
        map_of g guess = Some (PDict q) \<and>
        body (AList.update main (PDict m') g) q = Inr q' \<and>
        g' = AList.update guess (PDict q') (AList.update main (PDict m') g))"
  by (auto simp: for_both_def bind_eq_Inr with_settings_eq_Inr update_conv')

lemma on_general_eq_Inr:
  "on_general f s = Inr s' \<longleftrightarrow> (\<exists>g. f (general s) = Inr g \<and> s' = s\<lparr>general := g\<rparr>)"
  by (auto simp: on_general_def bind_eq_Inr)

lemma with_settings_frame:
  assumes "with_settings p body g = Inr g'"
    and "\<And>s s'. body s = Inr s' \<Longrightarrow> k = p \<Longrightarrow> path_get q (PDict s') = path_get q (PDict s)"
  shows "path_get (k # q) (PDict g') = path_get (k # q) (PDict g)"
  using assms by (auto simp: with_settings_eq_Inr update_conv')

lemma for_both_frame:
  assumes "for_both body g = Inr g'"
    and "\<And>g0 s s'. body g0 s = Inr s' \<Longrightarrow> k \<in> {main, guess} \<Longrightarrow>
           path_get q (PDict s') = path_get q (PDict s)"
  shows "path_get (k # q) (PDict g') = path_get (k # q) (PDict g)"
  using assms by (auto simp: for_both_eq_Inr update_conv')

lemma for_both_effect:
  assumes "for_both body g = Inr g'" and "x \<in> {main, guess}"
  obtains g0 s s' where "\<And>k. k \<notin> {main, guess} \<Longrightarrow> map_of g0 k = map_of g k"
    and "map_of g x = Some (PDict s)" and "body g0 s = Inr s'"
    and "map_of g' x = Some (PDict s')"
proof -
  from assms(1) obtain m m' q q' where h: "map_of g main = Some (PDict m)" "body g m = Inr m'"
    "map_of g guess = Some (PDict q)" "body (AList.update main (PDict m') g) q = Inr q'"
    "g' = AList.update guess (PDict q') (AList.update main (PDict m') g)"
    by (auto simp: for_both_eq_Inr)
  from assms(2) consider "x = main" | "x = guess" by auto
  then show thesis
  proof cases
    case 1
    with h show thesis by (intro that[of g m m']) (simp_all add: update_conv')
  next
    case 2
    with h show thesis
      by (intro that[of "AList.update main (PDict m') g" q q']) (simp_all add: update_conv')
  qed
qed

declare setattr_path.simps [simp del] touch_path.simps [simp del]

lemma confinedD:
  "confined W f \<Longrightarrow> f s = Inr s' \<Longrightarrow> list_all (\<lambda>w. diverge w q) W \<Longrightarrow>
     path_get q (PDict s') = path_get q (PDict s)"
  by (simp add: confined_def)

lemma confined_setattr: "p \<in> set W \<Longrightarrow> confined W (setattr_path p v)"
  by (auto simp: confined_def list_all_iff intro: setattr_frame)

lemma confined_touch: "p @ r \<in> set W \<Longrightarrow> confined W (touch_path p)"
  by (auto simp: confined_def list_all_iff intro: touch_frame)

lemma confined_update: "[k] \<in> set W \<Longrightarrow> confined W (\<lambda>s. Inr (AList.update k v s))"
  by (auto simp: confined_def list_all_iff intro: update_frame)

lemma confined_Inr: "confined W Inr"
  by (simp add: confined_def)

lemma confined_bind:
  "confined W f \<Longrightarrow> confined W h \<Longrightarrow> confined W (\<lambda>s. bind (f s) h)"
  unfolding confined_def by (auto simp: bind_eq_Inr)

lemma confined_bindc:
  "(\<And>x. confined W (F x)) \<Longrightarrow> confined W (\<lambda>s. bind c (\<lambda>x. F x s))"
  unfolding confined_def by (auto simp: bind_eq_Inr)

lemma confined_if:
  "confined W f \<Longrightarrow> confined W h \<Longrightarrow> confined W (\<lambda>s. if C s then f s else h s)"
  unfolding confined_def by (auto split: if_splits)

lemma with_settings_confined:
  assumes "with_settings p body g = Inr g'" and "confined W body"
    and "untouched [p] W r"
  shows "path_get r (PDict g') = path_get r (PDict g)"
proof -
  from assms(3) obtain k q where r: "r = k # q"
    and d: "k = p \<Longrightarrow> list_all (\<lambda>w. diverge w q) W"
    by (cases r) (auto simp: untouched_def)
  show ?thesis unfolding r
    by (rule with_settings_frame[OF assms(1)]) (auto dest: d confinedD[OF assms(2)])
qed

lemma for_both_confined:
  assumes "for_both body g = Inr g'" and "\<And>g0. confined W (body g0)"
    and "untouched [main, guess] W r"
  shows "path_get r (PDict g') = path_get r (PDict g)"
proof -
  from assms(3) obtain k q where r: "r = k # q"
    and d: "k \<in> {main, guess} \<Longrightarrow> list_all (\<lambda>w. diverge w q) W"
    by (cases r) (auto simp: untouched_def)
  show ?thesis unfolding r
  proof (rule for_both_frame[OF assms(1)])
    fix g0 s s' assume "body g0 s = Inr s'" "k \<in> {main, guess}"
    then show "path_get q (PDict s') = path_get q (PDict s)"
      using confinedD[OF assms(2)] d by blast
  qed
qed

lemma create_settings_id: "create_settings s = Inr s' \<Longrightarrow> s' = s"
  by (auto simp: create_settings_def on_general_eq_Inr bind_eq_Inr getitem_eq_Inr
      Settings_eq_Inr Let_def update_conv' update_triv)

lemmas confined_intros = confined_setattr confined_touch confined_update confined_Inr
  confined_bindc confined_bind confined_if

lemma add_charge_frame:
  assumes "add_charge s = Inr s'"
  shows "user_input s' = user_input s" and "warnings s' = warnings s"
    and "untouched [main, guess] [dft_path @ [''charge'']] r \<Longrightarrow>
           path_get r (PDict (general s')) = path_get r (PDict (general s))"
proof -
  from assms show "user_input s' = user_input s" "warnings s' = warnings s"
    by (auto simp: add_charge_def on_general_eq_Inr)
  assume u: "untouched [main, guess] [dft_path @ [''charge'']] r"
  from assms obtain g where g: "for_both (\<lambda>g s. bind (getitem g ''charge'') (\<lambda>charge.
       setattr_path (dft_path @ [''charge'']) charge s)) (general s) = Inr g"
    and s': "s' = s\<lparr>general := g\<rparr>"
    by (auto simp: add_charge_def on_general_eq_Inr)
  have "path_get r (PDict g) = path_get r (PDict (general s))"
    by (rule for_both_confined[OF g _ u]) (intro confined_bindc confined_setattr, simp)
  with s' show "path_get r (PDict (general s')) = path_get r (PDict (general s))" by simp
qed

lemma add_periodic_frame:
  assumes "add_periodic s = Inr s'"
  shows "user_input s' = user_input s" and "warnings s' = warnings s"
    and "untouched [main, guess]
           [[''specific'', ''cp2k'', ''force_eval'', ''subsys'', ''cell'', ''periodic'']] r \<Longrightarrow>
           path_get r (PDict (general s')) = path_get r (PDict (general s))"
proof -
  from assms show "user_input s' = user_input s" "warnings s' = warnings s"
    by (auto simp: add_periodic_def on_general_eq_Inr)
  assume u: "untouched [main, guess]
           [[''specific'', ''cp2k'', ''force_eval'', ''subsys'', ''cell'', ''periodic'']] r"
  from assms obtain g where g: "for_both (\<lambda>g s. bind (getitem g ''periodic'') (\<lambda>periodic.
       setattr_path [''specific'', ''cp2k'', ''force_eval'', ''subsys'', ''cell'', ''periodic'']
         periodic s)) (general s) = Inr g"
    and s': "s' = s\<lparr>general := g\<rparr>"
    by (auto simp: add_periodic_def on_general_eq_Inr)
  have "path_get r (PDict g) = path_get r (PDict (general s))"
    by (rule for_both_confined[OF g _ u]) (intro confined_bindc confined_setattr, simp)
  with s' show "path_get r (PDict (general s')) = path_get r (PDict (general s))" by simp
qed

lemma add_multiplicity_frame:
  assumes "add_multiplicity s = Inr s'"
  shows "user_input s' = user_input s" and "warnings s' = warnings s"
    and "untouched [main, guess] [dft_path @ [''multiplicity''], dft_path @ [''uks'']] r \<Longrightarrow>
           path_get r (PDict (general s')) = path_get r (PDict (general s))"
proof -
  from assms show "user_input s' = user_input s" "warnings s' = warnings s"
    by (auto simp: add_multiplicity_def on_general_eq_Inr bind_eq_Inr split: if_splits)
  assume u: "untouched [main, guess] [dft_path @ [''multiplicity''], dft_path @ [''uks'']] r"
  from assms consider "general s' = general s"
    | "for_both (\<lambda>g s. bind (getitem g ''multiplicity'') (\<lambda>m'.
           bind (setattr_path (dft_path @ [''multiplicity'']) m' s)
             (setattr_path (dft_path @ [''uks'']) (PStr [])))) (general s) = Inr (general s')"
    by (auto simp: add_multiplicity_def on_general_eq_Inr bind_eq_Inr split: if_splits)
  then show "path_get r (PDict (general s')) = path_get r (PDict (general s))"
  proof cases
    case 1
    then show ?thesis by simp
  next
    case 2
    show ?thesis
      by (rule for_both_confined[OF 2 _ u])
         (intro confined_bindc confined_bind confined_setattr, simp_all)
  qed
qed

lemma add_cell_parameters_frame:
  assumes "add_cell_parameters s = Inr s'"
  shows "user_input s' = user_input s" and "warnings s' = warnings s"
    and "untouched [main, guess] [[''cell_parameters''], [''cell_angles'']] r \<Longrightarrow>
           path_get r (PDict (general s')) = path_get r (PDict (general s))"
proof -
  from assms show "user_input s' = user_input s" "warnings s' = warnings s"
    by (auto simp: add_cell_parameters_def on_general_eq_Inr)
  assume u: "untouched [main, guess] [[''cell_parameters''], [''cell_angles'']] r"
  from assms obtain g where g: "for_both (\<lambda>g s.
       bind (getitem g ''file_cell_parameters'') (\<lambda>file.
       bind (if file = PNone then
               bind (getitem g ''cell_parameters'') (\<lambda>cell.
               Inr (AList.update ''cell_angles'' PNone
                     (AList.update ''cell_parameters'' cell s)))
             else Inr (AList.update ''cell_parameters'' PNone s)) (\<lambda>s1.
       Inr (AList.update ''cell_angles'' PNone s1)))) (general s) = Inr g"
    and s': "s' = s\<lparr>general := g\<rparr>"
    by (auto simp: add_cell_parameters_def on_general_eq_Inr)
  have c: "confined [[''cell_parameters''], [''cell_angles'']] (\<lambda>s.
       bind (getitem g0 ''file_cell_parameters'') (\<lambda>file.
       bind (if file = PNone then
               bind (getitem g0 ''cell_parameters'') (\<lambda>cell.
               Inr (AList.update ''cell_angles'' PNone
                     (AList.update ''cell_parameters'' cell s)))
             else Inr (AList.update ''cell_parameters'' PNone s)) (\<lambda>s1.
       Inr (AList.update ''cell_angles'' PNone s1))))" for g0
    unfolding confined_def
    by (auto simp: bind_eq_Inr update_frame split: if_splits)
  have "path_get r (PDict g) = path_get r (PDict (general s))"
    by (rule for_both_confined[OF g c u])
  with s' show "path_get r (PDict (general s')) = path_get r (PDict (general s))" by simp
qed

lemma add_executable_frame:
  assumes "add_executable s = Inr s'"
  shows "user_input s' = user_input s" and "warnings s' = warnings s"
    and "untouched [main, guess] [[''executable'']] r \<Longrightarrow>
           path_get r (PDict (general s')) = path_get r (PDict (general s))"
proof -
  from assms show "user_input s' = user_input s" "warnings s' = warnings s"
    by (auto simp: add_executable_def on_general_eq_Inr)
  assume u: "untouched [main, guess] [[''executable'']] r"
  from assms obtain x g1 y where
    g1: "with_settings main (\<lambda>s. Inr (AList.update ''executable'' x s)) (general s) = Inr g1"
    and g2: "with_settings guess (\<lambda>s. Inr (AList.update ''executable'' y s)) g1 = Inr (general s')"
    by (auto simp: add_executable_def on_general_eq_Inr bind_eq_Inr)
  from u have u1: "untouched [main] [[''executable'']] r" and u2: "untouched [guess] [[''executable'']] r"
    by (auto simp: untouched_def split: list.splits)
  have "path_get r (PDict g1) = path_get r (PDict (general s))"
    by (rule with_settings_confined[OF g1 _ u1]) (intro confined_update, simp)
  moreover have "path_get r (PDict (general s')) = path_get r (PDict g1)"
    by (rule with_settings_confined[OF g2 _ u2]) (intro confined_update, simp)
  ultimately show "path_get r (PDict (general s')) = path_get r (PDict (general s))" by simp
qed

lemma is_prefixD: "is_prefix p w \<Longrightarrow> \<exists>r. w = p @ r"
  by (induction p w rule: is_prefix.induct) auto

lemma confined_touch': "list_ex (is_prefix p) W \<Longrightarrow> confined W (touch_path p)"
  by (auto simp: list_ex_iff dest!: is_prefixD intro: confined_touch)

lemma confined_after_update:
  "[k] \<in> set W \<Longrightarrow> confined W f \<Longrightarrow> confined W (\<lambda>s. f (AList.update k v s))"
  unfolding confined_def by (auto simp: list_all_iff update_frame)

lemmas confined_rules = confined_setattr confined_touch' confined_update confined_Inr
  confined_bindc confined_bind confined_if confined_after_update

lemma select_basis_file_confined: "confined basis_writes (select_basis_file e g)"
  unfolding select_basis_file_def
  by (intro confined_rules) simp_all

lemma add_basis_frame:
  assumes "add_basis e s = Inr s'"
  shows "user_input s' = user_input s" and "warnings s' = warnings s"
    and "untouched [main, guess] basis_writes r \<Longrightarrow>
           path_get r (PDict (general s')) = path_get r (PDict (general s))"
proof -
  from assms show "user_input s' = user_input s" "warnings s' = warnings s"
    by (auto simp: add_basis_def on_general_eq_Inr bind_eq_Inr split: if_splits)
  assume u: "untouched [main, guess] basis_writes r"
  from assms consider "general s' = general s"
    | "for_both (\<lambda>g x.
           bind (getitem g ''basis'') (\<lambda>basis.
           bind (getitem g ''potential'') (\<lambda>potential.
           bind (getitem g ''path_basis'') (\<lambda>pb'.
           bind (as_str pb') (\<lambda>path_basis.
           bind (setattr_path (dft_path @ [''potential_file_name''])
                   (PStr (abspath e (join path_basis ''GTH_POTENTIALS'')))
                   (AList.update ''potential'' potential (AList.update ''basis'' basis x)))
             (select_basis_file e g)))))) (general s) = Inr (general s')"
    by (auto simp: add_basis_def on_general_eq_Inr bind_eq_Inr split: if_splits)
  then show "path_get r (PDict (general s')) = path_get r (PDict (general s))"
  proof cases
    case 1
    then show ?thesis by simp
  next
    case 2
    show ?thesis
      by (rule for_both_confined[OF 2 _ u])
         (intro confined_rules select_basis_file_confined, simp_all)
  qed
qed

lemma add_restart_point_frame:
  assumes "add_restart_point e s = Inr s'"
  shows "user_input s' = user_input s" and "warnings s' = warnings s"
    and "untouched [guess] [dft_path @ [''wfn_restart_file_name'']] r \<Longrightarrow>
           path_get r (PDict (general s')) = path_get r (PDict (general s))"
proof -
  from assms show "user_input s' = user_input s" "warnings s' = warnings s"
    by (auto simp: add_restart_point_def on_general_eq_Inr bind_eq_Inr split: if_splits)
  assume u: "untouched [guess] [dft_path @ [''wfn_restart_file_name'']] r"
  from assms consider "general s' = general s"
    | wfn where "with_settings guess (\<lambda>guess_settings.
           bind (touch_path dft_path guess_settings) (\<lambda>s1.
           bind (as_str wfn) (\<lambda>w.
           setattr_path (dft_path @ [''wfn_restart_file_name''])
             (PStr (path_absolute e w)) s1))) (general s) = Inr (general s')"
    by (auto simp: add_restart_point_def on_general_eq_Inr bind_eq_Inr split: if_splits)
  then show "path_get r (PDict (general s')) = path_get r (PDict (general s))"
  proof cases
    case 1
    then show ?thesis by simp
  next
    case 2
    show ?thesis
      by (rule with_settings_confined[OF 2 _ u]) (intro confined_rules, simp_all)
  qed
qed

lemma add_mo_index_range_frame:
  assumes "add_mo_index_range s = Inr s'"
  shows "warnings s' = warnings s"
    and "k \<noteq> ''mo_index_range'' \<Longrightarrow> map_of (user_input s') k = map_of (user_input s) k"
    and "untouched [main] mo_writes r \<Longrightarrow>
           path_get r (PDict (general s')) = path_get r (PDict (general s))"
proof -
  from assms show "warnings s' = warnings s"
    by (auto simp: add_mo_index_range_def on_general_eq_Inr bind_eq_Inr)
  from assms show "k \<noteq> ''mo_index_range'' \<Longrightarrow> map_of (user_input s') k = map_of (user_input s) k"
    by (auto simp: add_mo_index_range_def on_general_eq_Inr bind_eq_Inr update_conv')
  assume u: "untouched [main] mo_writes r"
  from assms obtain lo hi nHOMO where w: "with_settings main (\<lambda>cp2k_main.
          bind (touch_path (dft_path @ [''print'']) cp2k_main) (\<lambda>m1.
          bind (setattr_path (dft_path @ [''print'', ''mo'', ''mo_index_range''])
                  (PStr (str_int (lo + 1) @ '' '' @ str_int hi)) m1) (\<lambda>m2.
          bind (py_sub (PInt hi) nHOMO) (\<lambda>added.
          bind (setattr_path (dft_path @ [''scf'', ''added_mos'']) (PInt added) m2) (\<lambda>m3.
          bind (touch_path (dft_path @ [''print'', ''mo'']) m3) (\<lambda>m4.
          bind (setattr_path (dft_path @ [''print'', ''mo'', ''add_last''])
                  (PStr ''numeric'') m4) (\<lambda>m5.
          bind (setattr_path (dft_path @ [''print'', ''mo'', ''each'', ''qs_scf''])
                  (PInt 0) m5) (\<lambda>m6.
          bind (setattr_path (dft_path @ [''print'', ''mo'', ''eigenvalues''])
                  (PStr []) m6) (\<lambda>m7.
          bind (setattr_path (dft_path @ [''print'', ''mo'', ''eigenvectors''])
                  (PStr []) m7) (\<lambda>m8.
          setattr_path (dft_path @ [''print'', ''mo'', ''ndigits'']) (PInt 36) m8))))))))))
        (general s) = Inr (general s')"
    by (auto simp: add_mo_index_range_def on_general_eq_Inr bind_eq_Inr)
  show "path_get r (PDict (general s')) = path_get r (PDict (general s))"
    by (rule with_settings_confined[OF w _ u]) (intro confined_rules, simp_all)
qed

lemma ceiling_half: "\<lceil>real_of_int n / 2\<rceil> = n div 2 + n mod 2"
proof -
  have "\<lceil>real_of_int n / real_of_int 2\<rceil> = - (- n div 2)"
    by (rule ceiling_divide_eq_div)
  also have "\<dots> = n div 2 + n mod 2" by presburger
  finally show ?thesis by simp
qed

lemma sum_valence_all:
  "list_all2 (\<lambda>a n. tbl (a @ ''-'' @ b) = Some n) atoms ns \<Longrightarrow>
     sum_valence tbl (PStr b) atoms = Inr (sum_list ns)"
  by (induction atoms ns rule: list_all2_induct) simp_all

lemma compute_homo_index_value:
  assumes "map_of (general s) ''basis'' = Some (PStr b)"
    and "map_of (general s) ''charge'' = Some (PInt c)"
    and "map_of (user_input s) ''path_traj_xyz'' = Some p"
    and "read_molecule e p = Inr atoms"
    and "list_all2 (\<lambda>a n. valence_electrons e (a @ ''-'' @ b) = Some n) atoms ns"
  shows "compute_homo_index e s =
           Inr (\<lceil>real_of_int (sum_list ns - c) / 2\<rceil>,
                if odd (sum_list ns - c) then [unpaired_warning] else [])"
proof -
  define N where "N = sum_list ns - c"
  have "compute_homo_index e s =
          Inr (N div 2 + N mod 2, if N mod 2 \<noteq> 0 then [unpaired_warning] else [])"
    using assms unfolding N_def
    by (simp add: compute_homo_index_def getitem_def sum_valence_all py_sub_def
        del: of_int_diff)
  moreover have "N div 2 + N mod 2 = \<lceil>real_of_int N / 2\<rceil>"
    by (simp only: ceiling_half)
  moreover have "N mod 2 \<noteq> 0 \<longleftrightarrow> odd N" by presburger
  ultimately show ?thesis unfolding N_def by (simp only:)
qed

section \<open>HOMO derivation\<close>

text \<open>
  C8. With the basis name a string, the charge an integer, the geometry read and every
  atom's key in the valence table, an odd electron count \<open>N\<close> (the sum of the valence
  counts minus the charge) raises nothing: \<^verbatim>\<open>compute_homo_index\<close> returns
  \<open>\<lceil>N / 2\<rceil>\<close> and has issued the one warning about unpaired electrons. For
  \<open>N = 7\<close> the index is 4.
\<close>

theorem compute_homo_index_odd:
  assumes "map_of (general s) ''basis'' = Some (PStr b)"
    and "map_of (general s) ''charge'' = Some (PInt c)"
    and "map_of (user_input s) ''path_traj_xyz'' = Some p"
    and "read_molecule e p = Inr atoms"
    and "list_all2 (\<lambda>a n. valence_electrons e (a @ ''-'' @ b) = Some n) atoms ns"
    and "odd (sum_list ns - c)"
  shows "compute_homo_index e s =
           Inr (\<lceil>real_of_int (sum_list ns - c) / 2\<rceil>, [unpaired_warning])"
  using compute_homo_index_value[OF assms(1-5)] assms(6) by simp

theorem compute_homo_index_odd_witness:
  "odd (sum_list [5, 1, 1] - (0::int)) \<and>
   compute_homo_index nh2_env nh2_state = Inr (4, [unpaired_warning])"
proof -
  have l: "list_all2 (\<lambda>a n. valence_electrons nh2_env (a @ ''-'' @ ''DZVP-MOLOPT'') = Some n)
             [''N'', ''H'', ''H''] [5, 1, 1]"
    by (simp add: nh2_env_def)
  have o: "odd (sum_list [5, 1, 1] - (0::int))" by simp
  have "\<lceil>real_of_int (sum_list [5, 1, 1] - 0) / 2\<rceil> = 4" by (simp add: ceiling_half)
  with compute_homo_index_odd[of nh2_state "''DZVP-MOLOPT''" 0 "PStr ''nh2.xyz''" nh2_env
      "[''N'', ''H'', ''H'']" "[5, 1, 1]", OF _ _ _ _ l o] o
  show ?thesis by (simp add: nh2_state_def nh2_env_def)
qed

section \<open>The multipole matrix provider: what a request does\<close>

lemma search_multipole_in_hdf5_eq:
  "search_multipole_in_hdf5 f p multipole w = Inr (m, w1) \<Longrightarrow>
     hdf5 w1 = hdf5 w \<and>
     (case hdf5 w f p of
        None \<Rightarrow> m = None \<and> trace w1 = trace w @ [Printed (''computing multipole: '' @ multipole)]
      | Some v \<Rightarrow> m = v \<and>
          trace w1 = trace w @ [Printed (''retrieving multipole: '' @ multipole @ '' from the hdf5'')])"
  by (auto simp: search_multipole_in_hdf5_def search_data_in_hdf5_def retrieve_hdf5_data_def
      print_def Let_def bind_eq_Inr split: if_splits option.splits)

lemma compute_matrix_multipole_eq:
  "compute_matrix_multipole com mol config multipole w = Inr (m, w1) \<Longrightarrow>
     m = None \<and> hdf5 w1 = hdf5 w \<and> trace w1 = trace w @ [Computed multipole]"
  by (auto simp: compute_matrix_multipole_def Let_def bind_eq_Inr split: if_splits)

lemma str_int_0: "str_int 0 = ''0''"
  by (simp add: str_int_def)

text \<open>
  C10. Every request that returns has, as its last act, written the value it returns to
  the store under the key of the request, and the store holds that value afterwards.
  This includes the request that found a matrix \<open>x\<close> persisted: it returns \<open>x\<close>, has
  not called \<^verbatim>\<open>compute_matrix_multipole\<close>, and has stored \<open>x\<close> again.
\<close>

theorem get_multipole_matrix_stores:
  assumes "get_multipole_matrix com i mol config multipole w = Inr (m, w')"
  shows "\<exists>project_name path_hdf5.
           map_of config ''project_name'' = Some (PStr project_name) \<and>
           map_of config ''path_hdf5'' = Some (PStr path_hdf5) \<and>
           trace w' \<noteq> [] \<and>
           last (trace w') = Stored path_hdf5 (multipole_path project_name i multipole) m \<and>
           hdf5 w' path_hdf5 (multipole_path project_name i multipole) = Some m \<and>
           (\<forall>x. hdf5 w path_hdf5 (multipole_path project_name i multipole) = Some (Some x)
              \<longrightarrow> m = Some x \<and> Computed multipole \<notin> set (drop (length (trace w)) (trace w')))"
proof -
  from assms obtain project_name path_hdf5 found w1 w2 where
    pn: "map_of config ''project_name'' = Some (PStr project_name)"
    and ph: "map_of config ''path_hdf5'' = Some (PStr path_hdf5)"
    and se: "search_multipole_in_hdf5 path_hdf5 (multipole_path project_name i multipole)
               multipole w = Inr (found, w1)"
    and co: "(if found = None then compute_matrix_multipole com mol config multipole w1
              else Inr (found, w1)) = Inr (m, w2)"
    and w': "w' = store_arrays_in_hdf5 path_hdf5 (multipole_path project_name i multipole) m w2"
    by (auto simp: get_multipole_matrix_def bind_eq_Inr getitem_eq_Inr as_str_eq_Inr Let_def)
  note s = search_multipole_in_hdf5_eq[OF se]
  have hit: "m = Some x \<and> Computed multipole \<notin> set (drop (length (trace w)) (trace w'))"
    if "hdf5 w path_hdf5 (multipole_path project_name i multipole) = Some (Some x)" for x
    using that s co w' by (auto simp: store_arrays_in_hdf5_def)
  from w' have "trace w' \<noteq> []"
    "last (trace w') = Stored path_hdf5 (multipole_path project_name i multipole) m"
    "hdf5 w' path_hdf5 (multipole_path project_name i multipole) = Some m"
    by (simp_all add: store_arrays_in_hdf5_def)
  with pn ph hit show ?thesis by blast
qed

theorem get_multipole_matrix_stores_witness:
  "get_multipole_matrix no_center 0 [] ex_config ''dipole'' stored_world =
     Inr (Some 7,
          store_arrays_in_hdf5 ''quantum.hdf5'' ''namd/multipole/point_0/dipole'' (Some 7)
            (print ''retrieving multipole: dipole from the hdf5'' stored_world)) \<and>
   hdf5 stored_world ''quantum.hdf5'' ''namd/multipole/point_0/dipole'' = Some (Some 7) \<and>
   trace (store_arrays_in_hdf5 ''quantum.hdf5'' ''namd/multipole/point_0/dipole'' (Some 7)
            (print ''retrieving multipole: dipole from the hdf5'' stored_world)) =
     [Printed ''retrieving multipole: dipole from the hdf5'',
      Stored ''quantum.hdf5'' ''namd/multipole/point_0/dipole'' (Some 7)]"
proof -
  have r: "get_multipole_matrix no_center 0 [] ex_config ''dipole'' stored_world =
     Inr (Some 7,
          store_arrays_in_hdf5 ''quantum.hdf5'' ''namd/multipole/point_0/dipole'' (Some 7)
            (print ''retrieving multipole: dipole from the hdf5'' stored_world))"
    by (simp add: get_multipole_matrix_def ex_config_def stored_world_def getitem_def Let_def
        search_multipole_in_hdf5_def search_data_in_hdf5_def retrieve_hdf5_data_def
        print_def join_def str_int_0)
  from get_multipole_matrix_stores[OF r] r show ?thesis
    by (auto simp: ex_config_def join_def str_int_0 store_arrays_in_hdf5_def print_def
        stored_world_def)
qed

text \<open>
  C3, at a request the store has no matrix for. The first request prints that it
  computes, calls \<^verbatim>\<open>compute_matrix_multipole\<close>, gets \<^verbatim>\<open>None\<close> from it and stores
  that; the second request for the same key finds the key, retrieves \<^verbatim>\<open>None\<close>, takes
  it for a miss and calls \<^verbatim>\<open>compute_matrix_multipole\<close> again. Neither returns a matrix.
\<close>

theorem get_multipole_matrix_recomputes:
  "bind (get_multipole_matrix no_center 0 [] ex_config ''dipole'' empty_world) (\<lambda>(m1, w1).
   bind (get_multipole_matrix no_center 0 [] ex_config ''dipole'' w1) (\<lambda>(m2, w2).
   Inr (m1, m2, trace w2))) =
   Inr (None, None,
     [Printed ''computing multipole: dipole'', Computed ''dipole'',
      Stored ''quantum.hdf5'' ''namd/multipole/point_0/dipole'' None,
      Printed ''retrieving multipole: dipole from the hdf5'', Computed ''dipole'',
      Stored ''quantum.hdf5'' ''namd/multipole/point_0/dipole'' None])"
  by (simp add: get_multipole_matrix_def ex_config_def empty_world_def getitem_def Let_def
      search_multipole_in_hdf5_def search_data_in_hdf5_def retrieve_hdf5_data_def print_def
      store_arrays_in_hdf5_def join_def str_int_0 compute_matrix_multipole_def no_center_def)

section \<open>The run of the sanitizer, stage by stage\<close>

lemma init_eq_Inr:
  "init d = Inr s \<longleftrightarrow>
     (\<exists>g. map_of d cgs = Some (PDict g) \<and> s = \<lparr>user_input = d, general = g, warnings = []\<rparr>)"
proof -
  have "(case v of PDict g \<Rightarrow> Inr \<lparr>user_input = d, general = g, warnings = []\<rparr>
          | _ \<Rightarrow> Inl TypeError) = Inr s \<longleftrightarrow>
        (\<exists>g. v = PDict g \<and> s = \<lparr>user_input = d, general = g, warnings = []\<rparr>)" for v
    by (cases v) auto
  then show ?thesis
    by (auto simp: init_def bind_eq_Inr getitem_eq_Inr)
qed

lemma apply_template_confined: "confined [[''specific'']] (apply_template e ui g)"
  unfolding confined_def apply_template_def
  by (auto simp: bind_eq_Inr update_frame split: option.splits pyval.splits if_splits)

lemma apply_templates_frame:
  assumes "apply_templates e s = Inr s'"
  shows "user_input s' = user_input s" and "warnings s' = warnings s"
    and "untouched [main, guess] [[''specific'']] r \<Longrightarrow>
           path_get r (PDict (general s')) = path_get r (PDict (general s))"
proof -
  from assms show "user_input s' = user_input s" "warnings s' = warnings s"
    by (auto simp: apply_templates_def on_general_eq_Inr)
  assume u: "untouched [main, guess] [[''specific'']] r"
  from assms have g: "for_both (apply_template e (user_input s)) (general s) = Inr (general s')"
    by (auto simp: apply_templates_def on_general_eq_Inr bind_eq_Inr)
  show "path_get r (PDict (general s')) = path_get r (PDict (general s))"
    by (rule for_both_confined[OF g apply_template_confined u])
qed

lemma sanitize_input_runs:
  assumes "sanitize_input e d = Inr (out, ws)"
  obtains s0 s2 s3 s4 s5 s6 s7 s8 s9 s10 s11 where
    "init d = Inr s0" and "apply_templates e s0 = Inr s2"
    and "(if dict_get (user_input s2) ''nHOMO'' = PNone then
            bind (compute_homo_index e s2) (\<lambda>(homo, ws).
            Inr (s2\<lparr>user_input := AList.update ''nHOMO'' (PInt homo) (user_input s2),
                    warnings := warnings s2 @ ws\<rparr>))
          else Inr s2) = Inr s3"
    and "(if truthy (dict_get (user_input s3) ''compute_orbitals'')
          then add_mo_index_range s3 else Inr s3) = Inr s4"
    and "add_restart_point e s4 = Inr s5" and "add_basis e s5 = Inr s6"
    and "add_cell_parameters s6 = Inr s7" and "add_periodic s7 = Inr s8"
    and "add_charge s8 = Inr s9" and "add_multiplicity s9 = Inr s10"
    and "add_executable s10 = Inr s11"
    and "out = final_input s11" and "ws = warnings s11"
proof -
  from assms obtain s0 where s0: "init d = Inr s0" and sa: "sanitize e s0 = Inr (out, ws)"
    by (auto simp: sanitize_input_def bind_eq_Inr)
  from sa obtain s1 s2 s3' s11 where s1: "create_settings s0 = Inr s1"
    and s2: "apply_templates e s1 = Inr s2"
    and am: "add_missing_keywords e s2 = Inr s3'"
    and s11: "add_executable s3' = Inr s11"
    and o: "out = final_input s11" "ws = warnings s11"
    by (auto simp: sanitize_def bind_eq_Inr print_final_input_def)
  from s1 have e1: "s1 = s0" by (rule create_settings_id)
  from am obtain s3 s4 s5 s6 s7 s8 s9 where
    "(if dict_get (user_input s2) ''nHOMO'' = PNone then
            bind (compute_homo_index e s2) (\<lambda>(homo, ws).
            Inr (s2\<lparr>user_input := AList.update ''nHOMO'' (PInt homo) (user_input s2),
                    warnings := warnings s2 @ ws\<rparr>))
          else Inr s2) = Inr s3"
    "(if truthy (dict_get (user_input s3) ''compute_orbitals'')
          then add_mo_index_range s3 else Inr s3) = Inr s4"
    "add_restart_point e s4 = Inr s5" "add_basis e s5 = Inr s6"
    "add_cell_parameters s6 = Inr s7" "add_periodic s7 = Inr s8"
    "add_charge s8 = Inr s9" "add_multiplicity s9 = Inr s3'"
    unfolding add_missing_keywords_def bind_eq_Inr by blast
  with s0 s2 e1 s11 o show thesis by (intro that) auto
qed

lemma sanitize_input_run:
  assumes "sanitize_input e d = Inr (out, ws)"
  obtains st where "run e d st" and "out = final_input (st 10)" and "ws = warnings (st 10)"
proof -
  from assms obtain s0 s2 s3 s4 s5 s6 s7 s8 s9 s10 s11 where h:
    "init d = Inr s0" "apply_templates e s0 = Inr s2"
    "(if dict_get (user_input s2) ''nHOMO'' = PNone then
            bind (compute_homo_index e s2) (\<lambda>(homo, ws).
            Inr (s2\<lparr>user_input := AList.update ''nHOMO'' (PInt homo) (user_input s2),
                    warnings := warnings s2 @ ws\<rparr>))
          else Inr s2) = Inr s3"
    "(if truthy (dict_get (user_input s3) ''compute_orbitals'')
          then add_mo_index_range s3 else Inr s3) = Inr s4"
    "add_restart_point e s4 = Inr s5" "add_basis e s5 = Inr s6"
    "add_cell_parameters s6 = Inr s7" "add_periodic s7 = Inr s8"
    "add_charge s8 = Inr s9" "add_multiplicity s9 = Inr s10"
    "add_executable s10 = Inr s11"
    "out = final_input s11" "ws = warnings s11"
    by (rule sanitize_input_runs)
  define st where "st = (\<lambda>n. [s0, s2, s3, s4, s5, s6, s7, s8, s9, s10, s11] ! n)"
  have n: "st 0 = s0" "st 1 = s2" "st 2 = s3" "st 3 = s4" "st 4 = s5" "st 5 = s6"
    "st 6 = s7" "st 7 = s8" "st 8 = s9" "st 9 = s10" "st 10 = s11"
    by (simp_all add: st_def)
  have "run e d st" unfolding run_def n using h by (simp only: simp_thms)
  moreover have "out = final_input (st 10)" "ws = warnings (st 10)"
    using h by (simp_all add: st_def)
  ultimately show thesis by (rule that)
qed

lemma homo_step_general:
  assumes "(if dict_get (user_input s) ''nHOMO'' = PNone then
        bind (compute_homo_index e s) (\<lambda>(homo, ws).
        Inr (s\<lparr>user_input := AList.update ''nHOMO'' (PInt homo) (user_input s),
                    warnings := warnings s @ ws\<rparr>))
      else Inr s) = Inr s'"
  shows "general s' = general s"
  using assms by (auto simp: bind_eq_Inr split: if_splits)

lemma runD:
  assumes "run e d st"
  shows "init d = Inr (st 0)"
    and "apply_templates e (st 0) = Inr (st 1)"
    and "(if dict_get (user_input (st 1)) ''nHOMO'' = PNone then
        bind (compute_homo_index e (st 1)) (\<lambda>(homo, ws).
        Inr ((st 1)\<lparr>user_input := AList.update ''nHOMO'' (PInt homo) (user_input (st 1)),
                    warnings := warnings (st 1) @ ws\<rparr>))
      else Inr (st 1)) = Inr (st 2)"
    and "(if truthy (dict_get (user_input (st 2)) ''compute_orbitals'')
      then add_mo_index_range (st 2) else Inr (st 2)) = Inr (st 3)"
    and "add_restart_point e (st 3) = Inr (st 4)"
    and "add_basis e (st 4) = Inr (st 5)"
    and "add_cell_parameters (st 5) = Inr (st 6)"
    and "add_periodic (st 6) = Inr (st 7)"
    and "add_charge (st 7) = Inr (st 8)"
    and "add_multiplicity (st 8) = Inr (st 9)"
    and "add_executable (st 9) = Inr (st 10)"
  using assms by (simp_all only: run_def simp_thms)

lemma mo_step_cases:
  assumes "(if truthy (dict_get (user_input s) ''compute_orbitals'')
      then add_mo_index_range s else Inr s) = Inr s'"
  shows "s' = s \<or> add_mo_index_range s = Inr s'"
proof (cases "truthy (dict_get (user_input s) ''compute_orbitals'')")
  case True
  with assms show ?thesis by (simp only: if_True simp_thms)
next
  case False
  with assms show ?thesis by (simp only: if_False sum.inject simp_thms)
qed

lemma mo_step_frame:
  assumes "(if truthy (dict_get (user_input s) ''compute_orbitals'')
      then add_mo_index_range s else Inr s) = Inr s'"
  shows "warnings s' = warnings s"
    and "k \<noteq> ''mo_index_range'' \<Longrightarrow> map_of (user_input s') k = map_of (user_input s) k"
    and "untouched [main] mo_writes r \<Longrightarrow>
           path_get r (PDict (general s')) = path_get r (PDict (general s))"
proof -
  note c = mo_step_cases[OF assms]
  from c show "warnings s' = warnings s"
  proof
    assume "add_mo_index_range s = Inr s'"
    then show ?thesis by (rule add_mo_index_range_frame(1))
  qed simp
  assume k: "k \<noteq> ''mo_index_range''"
  from c show "map_of (user_input s') k = map_of (user_input s) k"
  proof
    assume "add_mo_index_range s = Inr s'"
    then show ?thesis using k by (rule add_mo_index_range_frame(2))
  qed simp
next
  note c = mo_step_cases[OF assms]
  assume u: "untouched [main] mo_writes r"
  from c show "path_get r (PDict (general s')) = path_get r (PDict (general s))"
  proof
    assume "add_mo_index_range s = Inr s'"
    then show ?thesis using u by (rule add_mo_index_range_frame(3))
  qed simp
qed

lemma step_frame:
  assumes "run e d st" and "1 \<le> n" and "n \<le> 10" and "stage_clear r n"
  shows "path_get r (PDict (general (st n))) = path_get r (PDict (general (st (n - 1))))"
proof -
  note h = runD[OF assms(1)]
  from assms(2,3) consider "n = 1" | "n = 2" | "n = 3" | "n = 4" | "n = 5" | "n = 6"
    | "n = 7" | "n = 8" | "n = 9" | "n = 10" by atomize_elim arith
  then show ?thesis
  proof cases
    case 1
    with assms(4) apply_templates_frame(3)[OF h(2), of r] show ?thesis
      by (simp add: stage_clear_def stage_writes_def)
  next
    case 2
    with homo_step_general[OF h(3)] show ?thesis by simp
  next
    case 3
    with assms(4) mo_step_frame(3)[OF h(4), of r] show ?thesis
      by (simp add: stage_clear_def stage_writes_def)
  next
    case 4
    with assms(4) add_restart_point_frame(3)[OF h(5), of r] show ?thesis
      by (simp add: stage_clear_def stage_writes_def)
  next
    case 5
    with assms(4) add_basis_frame(3)[OF h(6), of r] show ?thesis
      by (simp add: stage_clear_def stage_writes_def)
  next
    case 6
    with assms(4) add_cell_parameters_frame(3)[OF h(7), of r] show ?thesis
      by (simp add: stage_clear_def stage_writes_def)
  next
    case 7
    with assms(4) add_periodic_frame(3)[OF h(8), of r] show ?thesis
      by (simp add: stage_clear_def stage_writes_def)
  next
    case 8
    with assms(4) add_charge_frame(3)[OF h(9), of r] show ?thesis
      by (simp add: stage_clear_def stage_writes_def)
  next
    case 9
    with assms(4) add_multiplicity_frame(3)[OF h(10), of r] show ?thesis
      by (simp add: stage_clear_def stage_writes_def)
  next
    case 10
    with assms(4) add_executable_frame(3)[OF h(11), of r] show ?thesis
      by (simp add: stage_clear_def stage_writes_def)
  qed
qed

lemma range_frame:
  assumes "run e d st" and "i \<le> j" and "j \<le> 10"
    and "list_all (stage_clear r) [Suc i..<Suc j]"
  shows "path_get r (PDict (general (st j))) = path_get r (PDict (general (st i)))"
  using assms(2-4)
proof (induction j rule: dec_induct)
  case base
  show ?case by simp
next
  case (step n)
  from step.prems step.hyps have c: "stage_clear r (Suc n)"
    and l: "list_all (stage_clear r) [Suc i..<Suc n]" by simp_all
  from step_frame[OF assms(1) _ _ c] step.prems
  have "path_get r (PDict (general (st (Suc n)))) = path_get r (PDict (general (st n)))"
    by simp
  with step.IH l step.prems show ?case by simp
qed

lemma final_input_general:
  "path_get (cgs # r) (PDict (final_input s)) = path_get r (PDict (general s))"
  by (simp add: final_input_def update_conv')

lemma final_input_user:
  "k \<noteq> cgs \<Longrightarrow> map_of (final_input s) k = map_of (user_input s) k"
  by (simp add: final_input_def update_conv')

lemma path_get_single: "path_get [k] (PDict d) = map_of d k"
  by (simp split: option.splits)

lemma run_init:
  assumes "run e d st"
  shows "user_input (st 0) = d" and "warnings (st 0) = []"
    and "path_get (cgs # r) (PDict d) = path_get r (PDict (general (st 0)))"
  using assms by (auto simp: run_def init_eq_Inr)

lemma scalar_clear: "k \<notin> {main, guess} \<Longrightarrow> stage_clear [k] n"
  by (simp add: stage_clear_def stage_writes_def untouched_def)

lemma run_scalar:
  assumes "run e d st" and "k \<notin> {main, guess}" and "j \<le> 10"
  shows "map_of (general (st j)) k = map_of (general (st 0)) k"
proof -
  have "path_get [k] (PDict (general (st j))) = path_get [k] (PDict (general (st 0)))"
    by (rule range_frame[OF assms(1) _ assms(3)])
       (simp_all add: list_all_iff scalar_clear[OF assms(2)])
  then show ?thesis by (simp split: option.splits)
qed

lemma ch4_run_code: "sanitize_input ch4_env ch4_input = Inr (ch4_output, [])"
  by code_simp

section \<open>Executable, cell parameters\<close>

lemma add_executable_effect:
  assumes "add_executable s = Inr s'"
  obtains x where "map_of (general s) ''executable'' = Some x"
    and "path_get [main, ''executable''] (PDict (general s')) = Some x"
    and "path_get [guess, ''executable''] (PDict (general s')) = Some x"
proof -
  from assms obtain x g1 y where x: "map_of (general s) ''executable'' = Some x"
    and g1: "with_settings main (\<lambda>s. Inr (AList.update ''executable'' x s)) (general s) = Inr g1"
    and y: "map_of g1 ''executable'' = Some y"
    and g2: "with_settings guess (\<lambda>s. Inr (AList.update ''executable'' y s)) g1 = Inr (general s')"
    unfolding add_executable_def on_general_eq_Inr bind_eq_Inr getitem_eq_Inr by auto
  from g1 obtain m where g1': "g1 = AList.update main (PDict (AList.update ''executable'' x m)) (general s)"
    unfolding with_settings_eq_Inr by auto
  from g2 obtain q where g2': "general s' = AList.update guess (PDict (AList.update ''executable'' y q)) g1"
    unfolding with_settings_eq_Inr by auto
  from y x g1' have "y = x" by (simp add: update_conv')
  with g1' g2' have "path_get [main, ''executable''] (PDict (general s')) = Some x"
    "path_get [guess, ''executable''] (PDict (general s')) = Some x"
    by (simp_all add: update_conv')
  with x show thesis by (rule that)
qed

text \<open>
  C9. A run that returns has put the key \<^verbatim>\<open>executable\<close> into the main and into the
  guess specification, with the value the general settings hold under
  \<^verbatim>\<open>executable\<close>, which is the value they held in the input.
\<close>

theorem executable_in_both:
  assumes "sanitize_input e d = Inr (out, ws)"
  shows "\<exists>x. path_get [cgs, ''executable''] (PDict d) = Some x \<and>
           path_get [cgs, ''executable''] (PDict out) = Some x \<and>
           path_get [cgs, main, ''executable''] (PDict out) = Some x \<and>
           path_get [cgs, guess, ''executable''] (PDict out) = Some x"
proof -
  from assms obtain st where r: "run e d st" and out: "out = final_input (st 10)"
    by (rule sanitize_input_run)
  from runD(11)[OF r] obtain x where x: "map_of (general (st 9)) ''executable'' = Some x"
    "path_get [main, ''executable''] (PDict (general (st 10))) = Some x"
    "path_get [guess, ''executable''] (PDict (general (st 10))) = Some x"
    by (rule add_executable_effect)
  have "map_of (general (st 9)) ''executable'' = map_of (general (st 0)) ''executable''"
    "map_of (general (st 10)) ''executable'' = map_of (general (st 0)) ''executable''"
    by (rule run_scalar[OF r]; simp)+
  with x(1) have "map_of (general (st 0)) ''executable'' = Some x"
    "map_of (general (st 10)) ''executable'' = Some x" by simp_all
  then have "path_get [cgs, ''executable''] (PDict d) = Some x"
    "path_get [cgs, ''executable''] (PDict out) = Some x"
    unfolding out final_input_general run_init(3)[OF r] by simp_all
  moreover from x(2,3) have "path_get [cgs, main, ''executable''] (PDict out) = Some x"
    "path_get [cgs, guess, ''executable''] (PDict out) = Some x"
    unfolding out final_input_general by simp_all
  ultimately show ?thesis by blast
qed

theorem executable_in_both_witness:
  "sanitize_input ch4_env ch4_input = Inr (ch4_output, []) \<and>
   path_get [cgs, ''executable''] (PDict ch4_output) = Some (PStr ''cp2k.popt'') \<and>
   path_get [cgs, main, ''executable''] (PDict ch4_output) = Some (PStr ''cp2k.popt'') \<and>
   path_get [cgs, guess, ''executable''] (PDict ch4_output) = Some (PStr ''cp2k.popt'')"
proof -
  have r: "sanitize_input ch4_env ch4_input = Inr (ch4_output, [])" by (rule ch4_run_code)
  have "path_get [cgs, ''executable''] (PDict ch4_input) = Some (PStr ''cp2k.popt'')"
    by (simp add: ch4_input_def ch4_general_def)
  with executable_in_both[OF r] r show ?thesis by auto
qed

lemma add_cell_parameters_effect:
  assumes "add_cell_parameters s = Inr s'" and "x \<in> {main, guess}"
  shows "path_get [x, ''cell_angles''] (PDict (general s')) = Some PNone"
    and "map_of (general s) ''file_cell_parameters'' \<noteq> Some PNone \<Longrightarrow>
           path_get [x, ''cell_parameters''] (PDict (general s')) = Some PNone"
proof -
  from assms(1) have fb: "for_both (\<lambda>g s.
       bind (getitem g ''file_cell_parameters'') (\<lambda>file.
       bind (if file = PNone then
               bind (getitem g ''cell_parameters'') (\<lambda>cell.
               Inr (AList.update ''cell_angles'' PNone
                     (AList.update ''cell_parameters'' cell s)))
             else Inr (AList.update ''cell_parameters'' PNone s)) (\<lambda>s1.
       Inr (AList.update ''cell_angles'' PNone s1)))) (general s) = Inr (general s')"
    by (auto simp: add_cell_parameters_def on_general_eq_Inr)
  from fb assms(2) obtain g0 t t' where g0: "\<And>k. k \<notin> {main, guess} \<Longrightarrow> map_of g0 k = map_of (general s) k"
    and b: "bind (getitem g0 ''file_cell_parameters'') (\<lambda>file.
       bind (if file = PNone then
               bind (getitem g0 ''cell_parameters'') (\<lambda>cell.
               Inr (AList.update ''cell_angles'' PNone
                     (AList.update ''cell_parameters'' cell t)))
             else Inr (AList.update ''cell_parameters'' PNone t)) (\<lambda>s1.
       Inr (AList.update ''cell_angles'' PNone s1))) = Inr t'"
    and t': "map_of (general s') x = Some (PDict t')"
    by (rule for_both_effect) blast
  from g0[of "''file_cell_parameters''"]
  have f: "map_of g0 ''file_cell_parameters'' = map_of (general s) ''file_cell_parameters''"
    by simp
  from b t' show "path_get [x, ''cell_angles''] (PDict (general s')) = Some PNone"
    by (auto simp: bind_eq_Inr update_conv' split: if_splits)
  assume "map_of (general s) ''file_cell_parameters'' \<noteq> Some PNone"
  with b t' f show "path_get [x, ''cell_parameters''] (PDict (general s')) = Some PNone"
    by (auto simp: bind_eq_Inr getitem_eq_Inr update_conv' split: if_splits)
qed

lemma cell_clear:
  "list_all (stage_clear [x, ''cell_angles'']) [Suc 6..<Suc 10]"
  "list_all (stage_clear [x, ''cell_parameters'']) [Suc 6..<Suc 10]"
  by (simp_all add: stage_clear_def stage_writes_def untouched_def)

lemma cell_fields:
  assumes "sanitize_input e d = Inr (out, ws)" and "x \<in> {main, guess}"
  shows "path_get [cgs, x, ''cell_angles''] (PDict out) = Some PNone"
    and "path_get [cgs, ''file_cell_parameters''] (PDict d) \<noteq> Some PNone \<Longrightarrow>
           path_get [cgs, x, ''cell_parameters''] (PDict out) = Some PNone"
proof -
  from assms(1) obtain st where r: "run e d st" and out: "out = final_input (st 10)"
    by (rule sanitize_input_run)
  note eff = add_cell_parameters_effect[OF runD(7)[OF r] assms(2)]
  have "path_get [x, ''cell_angles''] (PDict (general (st 10))) =
          path_get [x, ''cell_angles''] (PDict (general (st 6)))"
    by (rule range_frame[OF r _ _ cell_clear(1)]) simp_all
  with eff(1) show "path_get [cgs, x, ''cell_angles''] (PDict out) = Some PNone"
    unfolding out final_input_general by simp
  assume "path_get [cgs, ''file_cell_parameters''] (PDict d) \<noteq> Some PNone"
  then have "map_of (general (st 5)) ''file_cell_parameters'' \<noteq> Some PNone"
    unfolding run_init(3)[OF r] path_get_single
    using run_scalar[OF r, of "''file_cell_parameters''" 5] by simp
  from eff(2)[OF this]
  have "path_get [x, ''cell_parameters''] (PDict (general (st 6))) = Some PNone" .
  moreover have "path_get [x, ''cell_parameters''] (PDict (general (st 10))) =
          path_get [x, ''cell_parameters''] (PDict (general (st 6)))"
    by (rule range_frame[OF r _ _ cell_clear(2)]) simp_all
  ultimately show "path_get [cgs, x, ''cell_parameters''] (PDict out) = Some PNone"
    unfolding out final_input_general by simp
qed

text \<open>
  C6. After a run that returns, \<^verbatim>\<open>cell_angles\<close> is \<^verbatim>\<open>None\<close> in both job
  specifications, whichever branch of \<^verbatim>\<open>add_cell_parameters\<close> ran; and when
  \<^verbatim>\<open>file_cell_parameters\<close> of the input is not \<^verbatim>\<open>None\<close>, \<^verbatim>\<open>cell_parameters\<close> is
  \<^verbatim>\<open>None\<close> in both as well.
\<close>

theorem cell_angles_unset:
  assumes "sanitize_input e d = Inr (out, ws)"
  shows "path_get [cgs, main, ''cell_angles''] (PDict out) = Some PNone \<and>
         path_get [cgs, guess, ''cell_angles''] (PDict out) = Some PNone \<and>
         (path_get [cgs, ''file_cell_parameters''] (PDict d) \<noteq> Some PNone \<longrightarrow>
            path_get [cgs, main, ''cell_parameters''] (PDict out) = Some PNone \<and>
            path_get [cgs, guess, ''cell_parameters''] (PDict out) = Some PNone)"
  using cell_fields[OF assms, of main] cell_fields[OF assms, of guess] by simp

theorem cell_angles_unset_witness:
  "sanitize_input ch4_env ch4_input = Inr (ch4_output, []) \<and>
   path_get [cgs, ''file_cell_parameters''] (PDict ch4_input) = Some (PStr ''cell.txt'') \<and>
   path_get [cgs, main, ''cell_angles''] (PDict ch4_output) = Some PNone \<and>
   path_get [cgs, guess, ''cell_angles''] (PDict ch4_output) = Some PNone \<and>
   path_get [cgs, main, ''cell_parameters''] (PDict ch4_output) = Some PNone \<and>
   path_get [cgs, guess, ''cell_parameters''] (PDict ch4_output) = Some PNone"
proof -
  have r: "sanitize_input ch4_env ch4_input = Inr (ch4_output, [])" by (rule ch4_run_code)
  have f: "path_get [cgs, ''file_cell_parameters''] (PDict ch4_input) = Some (PStr ''cell.txt'')"
    by (simp add: ch4_input_def ch4_general_def)
  with cell_angles_unset[OF r] r show ?thesis by auto
qed

end
